theory Spec2Isabelle
  imports Complex_Main "HOL-Library.Log_Nat"
begin

chapter \<open>The live auction server\<close>

text \<open>
  The model follows the latest version of the server (\<open>src/unnamed/part_001\<close>: events,
  the roles host, bidder and guest, the payment profile and the payment window). The two
  earlier versions in \<open>src/server.js\<close> and the one in \<open>src/unnamed/part_000\<close> have the same
  timer handler; the pricing rule of \<open>placeBid\<close> is the same from the second version on,
  and the first version rejects a bid with the test \<open>amount <= minAcceptable\<close>.

  Each socket handler is a function of the store, of the data of the calling connection
  (\<open>socket.data\<close>) and of the fields that the handler takes out of the payload; it returns the
  acknowledgement together with the store, and with the connection data when the handler
  writes them. A handler that throws after it has written to the store returns the store as
  written. \<open>Date.now()\<close> is an argument, one value for one call of a handler. Identifiers in
  a payload are natural numbers, numeric fields are given as the number that \<open>Number(...)\<close>
  makes of them, and a string field is a string or absent. The duration of
  \<open>host:startTimer\<close> is the exception: the code applies \<open>||\<close> to it before \<open>Number\<close>, so it is
  given as the payload value that arrived. The broadcasts to the rooms are not part of the
  model.
\<close>

section \<open>JavaScript numbers\<close>

text \<open>
  The server computes with JavaScript numbers, which are IEEE 754 binary64 values. A finite
  value is modelled by the rational it denotes (the two zeros are identified: the server
  only adds, multiplies and compares, and none of these tells them apart); the three
  special values are constructors of their own. Arithmetic is exact arithmetic on the
  rationals followed by rounding to the nearest binary64 value, ties to the even
  significand, as the language prescribes.
\<close>

datatype jsnum = NaN | PInf | NInf | Fin rat

definition pow2 :: "int \<Rightarrow> rat" where
  "pow2 k = (if 0 \<le> k then 2 ^ nat k else 1 / 2 ^ nat (- k))"

text \<open>The exponent of a positive rational: \<open>pow2 (ilog2 a) \<le> a < pow2 (ilog2 a + 1)\<close>;
  \<open>bitlen\<close> is the number of binary digits of a positive integer.\<close>

definition ilog2 :: "rat \<Rightarrow> int" where
  "ilog2 a = (if 1 \<le> a then bitlen \<lfloor>a\<rfloor> - 1 else - bitlen (\<lceil>1 / a\<rceil> - 1))"

definition round_half_even :: "rat \<Rightarrow> int" where
  "round_half_even q =
     (let f = \<lfloor>q\<rfloor>; d = q - of_int f
      in if d < 1 / 2 then f else if 1 / 2 < d then f + 1
         else if even f then f else f + 1)"

text \<open>
  Rounding to binary64: 53 significant bits, the smallest exponent is \<open>-1022\<close> (below it the
  spacing stays \<open>2 ^ -1074\<close>), and a result that reaches \<open>2 ^ 1024\<close> is an infinity.
\<close>

definition round_double :: "rat \<Rightarrow> jsnum" where
  "round_double x =
     (if x = 0 then Fin 0
      else let a = \<bar>x\<bar>;
               e = max (ilog2 a) (- 1022);
               u = pow2 (e - 52);
               r = of_int (round_half_even (a / u)) * u
           in if pow2 1024 \<le> r then (if 0 < x then PInf else NInf)
              else Fin (if 0 < x then r else - r))"

text \<open>\<open>Number.EPSILON\<close> is \<open>2 ^ -52\<close>.\<close>

definition EPSILON :: jsnum where
  "EPSILON = Fin (pow2 (- 52))"

text \<open>The operator \<open>+\<close> on numbers.\<close>

fun js_add :: "jsnum \<Rightarrow> jsnum \<Rightarrow> jsnum" where
  "js_add (Fin x) (Fin y) = round_double (x + y)"
| "js_add NaN _ = NaN"
| "js_add _ NaN = NaN"
| "js_add PInf NInf = NaN"
| "js_add NInf PInf = NaN"
| "js_add PInf _ = PInf"
| "js_add _ PInf = PInf"
| "js_add NInf _ = NInf"
| "js_add _ NInf = NInf"

text \<open>The operator \<open>*\<close> on numbers.\<close>

fun js_mul :: "jsnum \<Rightarrow> jsnum \<Rightarrow> jsnum" where
  "js_mul (Fin x) (Fin y) = round_double (x * y)"
| "js_mul NaN _ = NaN"
| "js_mul _ NaN = NaN"
| "js_mul PInf (Fin y) = (if y = 0 then NaN else if 0 < y then PInf else NInf)"
| "js_mul NInf (Fin y) = (if y = 0 then NaN else if 0 < y then NInf else PInf)"
| "js_mul (Fin x) PInf = (if x = 0 then NaN else if 0 < x then PInf else NInf)"
| "js_mul (Fin x) NInf = (if x = 0 then NaN else if 0 < x then NInf else PInf)"
| "js_mul PInf PInf = PInf"
| "js_mul NInf NInf = PInf"
| "js_mul PInf NInf = NInf"
| "js_mul NInf PInf = NInf"

text \<open>The comparison \<open>a < b\<close>: false as soon as one side is \<open>NaN\<close>.\<close>

fun js_lt :: "jsnum \<Rightarrow> jsnum \<Rightarrow> bool" where
  "js_lt (Fin x) (Fin y) = (x < y)"
| "js_lt NaN _ = False"
| "js_lt _ NaN = False"
| "js_lt _ NInf = False"
| "js_lt PInf _ = False"
| "js_lt NInf _ = True"
| "js_lt _ PInf = True"

text \<open>The comparison \<open>a <= b\<close>.\<close>

fun js_le :: "jsnum \<Rightarrow> jsnum \<Rightarrow> bool" where
  "js_le (Fin x) (Fin y) = (x \<le> y)"
| "js_le NaN _ = False"
| "js_le _ NaN = False"
| "js_le NInf _ = True"
| "js_le _ PInf = True"
| "js_le _ NInf = False"
| "js_le PInf _ = False"

text \<open>\<open>a > b\<close> and \<open>a >= b\<close> are \<open>b < a\<close> and \<open>b <= a\<close>.\<close>

definition js_gt :: "jsnum \<Rightarrow> jsnum \<Rightarrow> bool" where
  "js_gt a b = js_lt b a"

definition js_ge :: "jsnum \<Rightarrow> jsnum \<Rightarrow> bool" where
  "js_ge a b = js_le b a"

text \<open>\<open>Math.max\<close> of two numbers: \<open>NaN\<close> if one of them is.\<close>

definition js_max :: "jsnum \<Rightarrow> jsnum \<Rightarrow> jsnum" where
  "js_max a b = (if a = NaN \<or> b = NaN then NaN else if js_lt a b then b else a)"

text \<open>\<open>Number.isFinite\<close>.\<close>

fun is_finite :: "jsnum \<Rightarrow> bool" where
  "is_finite (Fin x) = True"
| "is_finite _ = False"

text \<open>A number in a boolean position: \<open>0\<close> and \<open>NaN\<close> count as false.\<close>

definition truthy :: "jsnum \<Rightarrow> bool" where
  "truthy a = (a \<noteq> Fin 0 \<and> a \<noteq> NaN)"

text \<open>A decimal literal or a parsed numeric string denotes the nearest binary64 value.\<close>

definition js_lit :: "rat \<Rightarrow> jsnum" where
  "js_lit x = round_double x"

text \<open>\<open>Date.now()\<close>: whole milliseconds since the epoch, supplied by the environment.\<close>

definition js_now :: "int \<Rightarrow> jsnum" where
  "js_now now = Fin (of_int now)"

section \<open>Strings\<close>

text \<open>
  A string of the model is a JavaScript string whose code units are all below \<open>256\<close>; the
  character with the code \<open>n\<close> stands for the code unit \<open>n\<close>, so that the length of a string
  and its slices are the ones of the code. Among these code units the white space and line
  terminator characters, which \<open>trim\<close> and \<open>Number\<close> strip, are the tabulator, the line feed,
  the vertical tabulator, the form feed, the carriage return, the space and the no-break
  space \<open>U+00A0\<close>. The other ones (\<open>U+1680\<close>, \<open>U+2000\<close> to \<open>U+200A\<close>, \<open>U+2028\<close>,
  \<open>U+2029\<close>, \<open>U+202F\<close>, \<open>U+205F\<close>, \<open>U+3000\<close>, \<open>U+FEFF\<close>) are code units from \<open>256\<close> up and
  do not occur in a string of the model.
\<close>

definition is_ws :: "char \<Rightarrow> bool" where
  "is_ws c = (c \<in> set [CHR 0x09, CHR 0x0A, CHR 0x0B, CHR 0x0C, CHR 0x0D, CHR 0x20, CHR 0xA0])"

text \<open>\<open>String.prototype.trim\<close>.\<close>

definition trim :: "string \<Rightarrow> string" where
  "trim s = rev (dropWhile is_ws (rev (dropWhile is_ws s)))"

text \<open>\<open>String(x || "")\<close> for a payload field that is a string or absent.\<close>

definition str_or_empty :: "string option \<Rightarrow> string" where
  "str_or_empty x = (case x of None \<Rightarrow> [] | Some t \<Rightarrow> t)"

text \<open>A nullable string in a boolean position: \<open>null\<close> and \<open>""\<close> count as false.\<close>

definition truthy_str :: "string option \<Rightarrow> bool" where
  "truthy_str x = (case x of None \<Rightarrow> False | Some t \<Rightarrow> t \<noteq> [])"

section \<open>Payload values\<close>

text \<open>
  \<open>Number(s)\<close> for a string \<open>s\<close>: the string is trimmed; the empty string is \<open>0\<close>; a
  literal with the prefix \<open>0x\<close>, \<open>0o\<close> or \<open>0b\<close> (in either case) is an unsigned integer in base
  16, 8 or 2; otherwise the string is an optional sign followed by \<open>Infinity\<close> or by a
  decimal literal (digits with at most one point and at least one digit, and an optional
  exponent \<open>e\<close> or \<open>E\<close> with an optional sign and at least one digit); every other string
  is \<open>NaN\<close>. The value of a literal is rounded to binary64.
\<close>

definition pow10 :: "int \<Rightarrow> rat" where
  "pow10 k = (if 0 \<le> k then 10 ^ nat k else 1 / 10 ^ nat (- k))"

definition digit_val :: "char \<Rightarrow> nat option" where
  "digit_val c =
     (let n = (of_char c :: nat)
      in if 48 \<le> n \<and> n \<le> 57 then Some (n - 48)
         else if 97 \<le> n \<and> n \<le> 102 then Some (n - 87)
         else if 65 \<le> n \<and> n \<le> 70 then Some (n - 55)
         else None)"

fun digits_value :: "nat \<Rightarrow> string \<Rightarrow> nat \<Rightarrow> nat option" where
  "digits_value b [] acc = Some acc"
| "digits_value b (c # cs) acc =
     (case digit_val c of
        None \<Rightarrow> None
      | Some d \<Rightarrow> if d < b then digits_value b cs (acc * b + d) else None)"

definition number_in_base :: "nat \<Rightarrow> string \<Rightarrow> nat option" where
  "number_in_base b cs = (if cs = [] then None else digits_value b cs 0)"

definition has_non_decimal_prefix :: "string \<Rightarrow> bool" where
  "has_non_decimal_prefix t = (take 2 t \<in> set [''0x'', ''0X'', ''0o'', ''0O'', ''0b'', ''0B''])"

definition non_decimal :: "string \<Rightarrow> nat option" where
  "non_decimal t =
     (if take 2 t = ''0x'' \<or> take 2 t = ''0X'' then number_in_base 16 (drop 2 t)
      else if take 2 t = ''0o'' \<or> take 2 t = ''0O'' then number_in_base 8 (drop 2 t)
      else if take 2 t = ''0b'' \<or> take 2 t = ''0B'' then number_in_base 2 (drop 2 t)
      else None)"

text \<open>The exponent part of a decimal literal, from the letter \<open>e\<close> on; an absent part counts
  as the exponent \<open>0\<close>.\<close>

definition exponent_part :: "string \<Rightarrow> int option" where
  "exponent_part r =
     (case r of
        [] \<Rightarrow> Some 0
      | e # x \<Rightarrow>
          (case x of
             [] \<Rightarrow> None
           | c # y \<Rightarrow>
               if c = CHR ''-'' then map_option (\<lambda>n. - int n) (number_in_base 10 y)
               else if c = CHR ''+'' then map_option int (number_in_base 10 y)
               else map_option int (number_in_base 10 x)))"

definition unsigned_decimal :: "string \<Rightarrow> rat option" where
  "unsigned_decimal u =
     (let m = takeWhile (\<lambda>c. c \<noteq> CHR ''e'' \<and> c \<noteq> CHR ''E'') u;
          r = dropWhile (\<lambda>c. c \<noteq> CHR ''e'' \<and> c \<noteq> CHR ''E'') u;
          ip = takeWhile (\<lambda>c. c \<noteq> CHR ''.'') m;
          fp = drop 1 (dropWhile (\<lambda>c. c \<noteq> CHR ''.'') m)
      in if ip = [] \<and> fp = [] then None
         else
           (case (digits_value 10 (ip @ fp) 0, exponent_part r) of
              (Some v, Some k) \<Rightarrow> Some (of_nat v / 10 ^ length fp * pow10 k)
            | _ \<Rightarrow> None))"

definition str_to_number :: "string \<Rightarrow> jsnum" where
  "str_to_number s =
     (let t = trim s
      in if t = [] then Fin 0
         else if has_non_decimal_prefix t then
           (case non_decimal t of None \<Rightarrow> NaN | Some v \<Rightarrow> round_double (of_nat v))
         else
           (let neg = (take 1 t = ''-'');
                u = (if take 1 t = ''-'' \<or> take 1 t = ''+'' then drop 1 t else t)
            in if u = ''Infinity'' then (if neg then NInf else PInf)
               else
                 (case unsigned_decimal u of
                    None \<Rightarrow> NaN
                  | Some v \<Rightarrow> round_double (if neg then - v else v))))"

text \<open>
  A field of a payload as it arrives, before any conversion: absent (\<open>undefined\<close>), \<open>null\<close>,
  a boolean, a number, a string, or an array or another object. Of an object the handlers
  only use that it counts as true and the number that \<open>Number(...)\<close> makes of it, which is
  carried along (\<open>0\<close> for \<open>[]\<close>, \<open>NaN\<close> for \<open>{}\<close>, \<open>5\<close> for \<open>[5]\<close>).
\<close>

datatype jsval = JUndefined | JNull | JBool bool | JNum jsnum | JStr string | JObject jsnum

text \<open>A payload value in a boolean position, as the left operand of \<open>||\<close>.\<close>

fun truthy_val :: "jsval \<Rightarrow> bool" where
  "truthy_val JUndefined = False"
| "truthy_val JNull = False"
| "truthy_val (JBool b) = b"
| "truthy_val (JNum x) = truthy x"
| "truthy_val (JStr s) = (s \<noteq> [])"
| "truthy_val (JObject n) = True"

text \<open>\<open>Number(v)\<close>.\<close>

fun to_number :: "jsval \<Rightarrow> jsnum" where
  "to_number JUndefined = NaN"
| "to_number JNull = Fin 0"
| "to_number (JBool b) = (if b then Fin 1 else Fin 0)"
| "to_number (JNum x) = x"
| "to_number (JStr s) = str_to_number s"
| "to_number (JObject n) = n"

section \<open>Data model\<close>

datatype conn_role = Host | Bidder | Guest

datatype item_status = Open | Sold | Closed

datatype payment_status = PayNone | Pending | Confirmed | Expired

text \<open>One entry of \<open>bidHistory\<close>: \<open>{name, amount, time}\<close>.\<close>

record bid =
  bid_name :: string
  bid_amount :: jsnum
  bid_time :: int

record item =
  item_id :: nat
  title :: string
  description :: string
  openingBid :: jsnum
  currentBid :: jsnum
  currentWinner :: "string option"
  bidHistory :: "bid list"
  status :: item_status
  endTime :: "jsnum option"
  imageUrl :: "string option"
  paymentStatus :: payment_status
  paymentDueAt :: "jsnum option"
  paymentWinnerName :: "string option"

record event =
  ev_id :: nat
  ev_name :: string
  location :: string
  isProtected :: bool
  password :: string
  items :: "item list"
  minIncrement :: jsnum
  currentLotId :: "nat option"
  participants :: "string set"
  active :: bool

text \<open>The mock payment profile kept on a connection.\<close>

record profile =
  pf_name :: string
  email :: string
  last4 :: string
  deliveryAddress :: string

text \<open>\<open>socket.data\<close>: the server-side fields of one connection.\<close>

record socket_data =
  role :: conn_role
  eventId :: "nat option"
  nameLocked :: bool
  displayName :: "string option"
  paymentProfile :: "profile option"

text \<open>The in-memory store: \<open>events\<close>, the two counters, and the configured host password.\<close>

record server =
  events :: "event list"
  nextEventId :: nat
  nextItemId :: nat
  ADMIN_TOKEN :: string

text \<open>The message of the \<open>Error\<close> a handler throws; each is caught at the end of the
  handler and sent back as \<open>{ok: false, error}\<close>. The two low-bid messages carry the numbers
  they print.\<close>

datatype error =
    InvalidHostPassword
  | NameRequired
  | EmailRequired
  | HostOnly
  | EventNameRequired
  | EventLocationRequired
  | PasswordRequired
  | ProfileRequired
  | SwitchToBidder
  | EventNotFound
  | WrongEventPassword
  | NameMissing
  | NameChangeDenied
  | NameConflict
  | BadValue
  | TitleRequired
  | BadOpeningBid
  | NotFound
  | ItemNotOpen
  | BadDuration
  | ItemNotFound
  | OnlyBidders
  | JoinFirst
  | NameLocked
  | BiddingClosed item_status
  | WindowClosed
  | BadAmount
  | BidTooLowIncrement jsnum jsnum
  | BidTooLowCurrent jsnum
  | ItemNotSold
  | NoPendingPayment
  | SetupProfileFirst
  | OnlyWinner
  | PaymentWindowExpired

text \<open>The acknowledgement: \<open>{ok: true, ...}\<close> or \<open>{ok: false, error}\<close>.\<close>

datatype reply = Ok | Failed error

text \<open>The state of a fresh process and of a fresh connection.\<close>

definition init_server :: "string \<Rightarrow> server" where
  "init_server tok = \<lparr>events = [], nextEventId = 1, nextItemId = 1, ADMIN_TOKEN = tok\<rparr>"

definition init_socket :: socket_data where
  "init_socket = \<lparr>role = Guest, eventId = None, nameLocked = False, displayName = None,
     paymentProfile = None\<rparr>"

section \<open>Helpers\<close>

text \<open>\<open>events.find(e => e.id === Number(id))\<close>.\<close>

definition getEvent :: "server \<Rightarrow> nat \<Rightarrow> event option" where
  "getEvent s eid = find (\<lambda>e. ev_id e = eid) (events s)"

text \<open>\<open>event.items.find(i => i.id === Number(itemId))\<close>.\<close>

definition getItem :: "event \<Rightarrow> nat \<Rightarrow> item option" where
  "getItem ev iid = find (\<lambda>i. item_id i = iid) (items ev)"

text \<open>
  The handlers mutate the object that \<open>find\<close> returned, which is the first match of the
  array. In the model the first match is replaced by its updated copy.
\<close>

fun update_first :: "('a \<Rightarrow> bool) \<Rightarrow> ('a \<Rightarrow> 'a) \<Rightarrow> 'a list \<Rightarrow> 'a list" where
  "update_first P f [] = []"
| "update_first P f (x # xs) = (if P x then f x # xs else x # update_first P f xs)"

definition update_event :: "nat \<Rightarrow> (event \<Rightarrow> event) \<Rightarrow> server \<Rightarrow> server" where
  "update_event eid f s = s\<lparr>events := update_first (\<lambda>e. ev_id e = eid) f (events s)\<rparr>"

definition update_item :: "nat \<Rightarrow> nat \<Rightarrow> (item \<Rightarrow> item) \<Rightarrow> server \<Rightarrow> server" where
  "update_item eid iid f s =
     update_event eid (\<lambda>e. e\<lparr>items := update_first (\<lambda>i. item_id i = iid) f (items e)\<rparr>) s"

text \<open>\<open>t && now >= t\<close> for a nullable deadline \<open>t\<close>.\<close>

definition deadline_reached :: "int \<Rightarrow> jsnum option \<Rightarrow> bool" where
  "deadline_reached now t =
     (case t of None \<Rightarrow> False | Some d \<Rightarrow> truthy d \<and> js_ge (js_now now) d)"

text \<open>\<open>t && now > t\<close> for a nullable deadline \<open>t\<close>.\<close>

definition deadline_passed :: "int \<Rightarrow> jsnum option \<Rightarrow> bool" where
  "deadline_passed now t =
     (case t of None \<Rightarrow> False | Some d \<Rightarrow> truthy d \<and> js_gt (js_now now) d)"

section \<open>Connection handlers: role, profile, events\<close>

text \<open>\<open>toLowerCase\<close> on one code unit below \<open>256\<close>: the letters \<open>A\<close> to \<open>Z\<close>, and the
  accented capitals \<open>U+00C0\<close> to \<open>U+00DE\<close> without the multiplication sign \<open>U+00D7\<close>.\<close>

definition to_lower :: "char \<Rightarrow> char" where
  "to_lower c =
     (let n = (of_char c :: nat)
      in if (65 \<le> n \<and> n \<le> 90) \<or> (192 \<le> n \<and> n \<le> 222 \<and> n \<noteq> 215) then char_of (n + 32)
         else c)"

text \<open>\<open>String(x)\<close> for a payload field that is a string or absent.\<close>

definition js_String :: "string option \<Rightarrow> string" where
  "js_String x = (case x of None \<Rightarrow> ''undefined'' | Some t \<Rightarrow> t)"

definition isSiteAdmin :: "server \<Rightarrow> string option \<Rightarrow> bool" where
  "isSiteAdmin s token = (ADMIN_TOKEN s \<noteq> [] \<and> js_String token = ADMIN_TOKEN s)"

text \<open>Handler \<open>auth\<close>: the payload's \<open>role\<close> is a request; only this handler writes
  \<open>socket.data.role\<close>.\<close>

definition auth :: "server \<Rightarrow> socket_data \<Rightarrow> string option \<Rightarrow> string option \<Rightarrow> reply \<times> socket_data" where
  "auth s sd role_req pw =
     (let r = map to_lower (str_or_empty role_req)
      in if r = ''host'' then
           (if \<not> isSiteAdmin s pw then (Failed InvalidHostPassword, sd)
            else (Ok, sd\<lparr>role := Host\<rparr>))
         else if r = ''bidder'' then (Ok, sd\<lparr>role := Bidder\<rparr>)
         else (Ok, sd\<lparr>role := Guest\<rparr>))"

text \<open>Handler \<open>profile:setup\<close>.\<close>

definition profile_setup ::
  "socket_data \<Rightarrow> string option \<Rightarrow> string option \<Rightarrow> string option \<Rightarrow> string option
     \<Rightarrow> reply \<times> socket_data" where
  "profile_setup sd nm em cardLast4 addr =
     (let name = trim (str_or_empty nm);
          mail = trim (str_or_empty em);
          c = trim (str_or_empty cardLast4);
          l4 = drop (length c - 4) c
      in if name = [] then (Failed NameRequired, sd)
         else if mail = [] then (Failed EmailRequired, sd)
         else (Ok, sd\<lparr>displayName := Some name,
                 paymentProfile := Some \<lparr>pf_name = name, email = mail, last4 = l4,
                   deliveryAddress = str_or_empty addr\<rparr>\<rparr>))"

text \<open>Handler \<open>host:createEvent\<close>.\<close>

definition host_createEvent ::
  "server \<Rightarrow> socket_data \<Rightarrow> string option \<Rightarrow> string option \<Rightarrow> bool \<Rightarrow> string option
     \<Rightarrow> reply \<times> server" where
  "host_createEvent s sd nm loc prot pw =
     (if role sd \<noteq> Host then (Failed HostOnly, s)
      else let name = trim (str_or_empty nm);
               place = trim (str_or_empty loc);
               secret = (if prot then str_or_empty pw else [])
           in if name = [] then (Failed EventNameRequired, s)
              else if place = [] then (Failed EventLocationRequired, s)
              else if prot \<and> secret = [] then (Failed PasswordRequired, s)
              else (Ok, s\<lparr>events := events s @
                      [\<lparr>ev_id = nextEventId s, ev_name = name, location = place,
                        isProtected = prot, password = secret, items = [],
                        minIncrement = Fin 0, currentLotId = None, participants = {},
                        active = True\<rparr>],
                      nextEventId := nextEventId s + 1\<rparr>))"

text \<open>\<open>socket.data.eventId && socket.data.eventId !== ev.id\<close>.\<close>

definition in_other_event :: "socket_data \<Rightarrow> nat \<Rightarrow> bool" where
  "in_other_event sd eid = (case eventId sd of None \<Rightarrow> False | Some k \<Rightarrow> k \<noteq> 0 \<and> k \<noteq> eid)"

text \<open>The \<open>Move rooms if needed\<close> block of \<open>event:join\<close>: the name is deleted from the
  previous event's participants (nothing happens when that event is not found, and
  \<open>update_event\<close> changes nothing then).\<close>

definition leave_previous :: "socket_data \<Rightarrow> nat \<Rightarrow> server \<Rightarrow> server" where
  "leave_previous sd eid s =
     (case eventId sd of
        None \<Rightarrow> s
      | Some k \<Rightarrow>
          (if k \<noteq> 0 \<and> k \<noteq> eid then
             (case displayName sd of
                None \<Rightarrow> s
              | Some d \<Rightarrow>
                  (if d = [] then s
                   else update_event k (\<lambda>e. e\<lparr>participants := participants e - {d}\<rparr>) s))
           else s))"

text \<open>Handler \<open>event:join\<close>.\<close>

definition event_join ::
  "server \<Rightarrow> socket_data \<Rightarrow> nat \<Rightarrow> string option \<Rightarrow> string option
     \<Rightarrow> reply \<times> server \<times> socket_data" where
  "event_join s sd eid nm pw =
     (if paymentProfile sd = None then (Failed ProfileRequired, s, sd)
      else if role sd \<noteq> Bidder then (Failed SwitchToBidder, s, sd)
      else
        (case getEvent s eid of
           None \<Rightarrow> (Failed EventNotFound, s, sd)
         | Some ev \<Rightarrow>
             (if isProtected ev \<and> str_or_empty pw \<noteq> password ev
              then (Failed WrongEventPassword, s, sd)
              else
                (let t = trim (str_or_empty nm);
                     name = (if t \<noteq> [] then Some t else displayName sd)
                 in (case name of
                       None \<Rightarrow> (Failed NameMissing, s, sd)
                     | Some n \<Rightarrow>
                         (if n = [] then (Failed NameMissing, s, sd)
                          else if nameLocked sd \<and> truthy_str (displayName sd)
                                  \<and> eventId sd = Some (ev_id ev) \<and> Some n \<noteq> displayName sd
                            then (Failed NameChangeDenied, s, sd)
                          else if (\<not> nameLocked sd \<or> eventId sd \<noteq> Some (ev_id ev)
                                   \<or> \<not> truthy_str (displayName sd)) \<and> n \<in> participants ev
                            then (Failed NameConflict, s, sd)
                          else (Ok,
                                update_event (ev_id ev)
                                  (\<lambda>e. e\<lparr>participants := insert n (participants e)\<rparr>)
                                  (leave_previous sd (ev_id ev) s),
                                sd\<lparr>eventId := Some (ev_id ev), displayName := Some n,
                                  nameLocked := True\<rparr>)))))))"

text \<open>Handler \<open>disconnect\<close>; \<open>Number(null)\<close> is \<open>0\<close>.\<close>

definition disconnect :: "server \<Rightarrow> socket_data \<Rightarrow> server" where
  "disconnect s sd =
     (let k = (case eventId sd of None \<Rightarrow> 0 | Some i \<Rightarrow> i)
      in (case getEvent s k of
            None \<Rightarrow> s
          | Some ev \<Rightarrow>
              (case displayName sd of
                 None \<Rightarrow> s
               | Some d \<Rightarrow>
                   (if d = [] then s
                    else update_event k (\<lambda>e. e\<lparr>participants := participants e - {d}\<rparr>) s))))"

section \<open>Host handlers\<close>

text \<open>Handler \<open>host:setMinIncrement\<close>; \<open>v\<close> is \<open>Number(value)\<close>.\<close>

definition host_setMinIncrement :: "server \<Rightarrow> socket_data \<Rightarrow> nat \<Rightarrow> jsnum \<Rightarrow> reply \<times> server" where
  "host_setMinIncrement s sd eid v =
     (if role sd \<noteq> Host then (Failed HostOnly, s)
      else
        (case getEvent s eid of
           None \<Rightarrow> (Failed EventNotFound, s)
         | Some ev \<Rightarrow>
             (if \<not> is_finite v \<or> js_lt v (Fin 0) then (Failed BadValue, s)
              else (Ok, update_event (ev_id ev) (\<lambda>e. e\<lparr>minIncrement := v\<rparr>) s))))"

text \<open>Handler \<open>host:createItem\<close>; \<open>ob\<close> is \<open>Number(openingBid)\<close>.\<close>

definition host_createItem ::
  "server \<Rightarrow> socket_data \<Rightarrow> nat \<Rightarrow> string option \<Rightarrow> string option \<Rightarrow> jsnum \<Rightarrow> string option
     \<Rightarrow> reply \<times> server" where
  "host_createItem s sd eid ttl descr ob img =
     (if role sd \<noteq> Host then (Failed HostOnly, s)
      else
        (case getEvent s eid of
           None \<Rightarrow> (Failed EventNotFound, s)
         | Some ev \<Rightarrow>
             (let t = trim (str_or_empty ttl); d = trim (str_or_empty descr)
              in if t = [] then (Failed TitleRequired, s)
                 else if \<not> is_finite ob \<or> js_lt ob (Fin 0) then (Failed BadOpeningBid, s)
                 else (Ok,
                       (update_event (ev_id ev)
                          (\<lambda>e. e\<lparr>items := items e @
                             [\<lparr>item_id = nextItemId s, title = t, description = d,
                               openingBid = ob, currentBid = ob, currentWinner = None,
                               bidHistory = [], status = Open, endTime = None,
                               imageUrl = (if truthy_str img then img else None),
                               paymentStatus = PayNone, paymentDueAt = None,
                               paymentWinnerName = None\<rparr>]\<rparr>) s)
                         \<lparr>nextItemId := nextItemId s + 1\<rparr>))))"

text \<open>\<open>Number(durationSeconds || 60)\<close>: the operator \<open>||\<close> looks at the payload value as it
  arrived, and \<open>Number\<close> converts what \<open>||\<close> returns.\<close>

definition duration_of :: "jsval \<Rightarrow> jsnum" where
  "duration_of d = to_number (if truthy_val d then d else JNum (Fin 60))"

text \<open>Handler \<open>host:startTimer\<close>.\<close>

definition host_startTimer ::
  "int \<Rightarrow> server \<Rightarrow> socket_data \<Rightarrow> nat \<Rightarrow> nat \<Rightarrow> jsval \<Rightarrow> reply \<times> server" where
  "host_startTimer now s sd eid iid durationSeconds =
     (if role sd \<noteq> Host then (Failed HostOnly, s)
      else
        (case getEvent s eid of
           None \<Rightarrow> (Failed NotFound, s)
         | Some ev \<Rightarrow>
             (case getItem ev iid of
                None \<Rightarrow> (Failed NotFound, s)
              | Some it \<Rightarrow>
                  (if status it \<noteq> Open then (Failed ItemNotOpen, s)
                   else
                     (let dur = duration_of durationSeconds
                      in if \<not> is_finite dur \<or> js_le dur (Fin 0) then (Failed BadDuration, s)
                         else (Ok, update_item (ev_id ev) iid
                                 (\<lambda>i. i\<lparr>endTime := Some (js_add (js_now now) (js_mul dur (Fin 1000)))\<rparr>)
                                 s))))))"

text \<open>Handler \<open>host:stopTimer\<close>.\<close>

definition host_stopTimer :: "server \<Rightarrow> socket_data \<Rightarrow> nat \<Rightarrow> nat \<Rightarrow> reply \<times> server" where
  "host_stopTimer s sd eid iid =
     (if role sd \<noteq> Host then (Failed HostOnly, s)
      else
        (case getEvent s eid of
           None \<Rightarrow> (Failed NotFound, s)
         | Some ev \<Rightarrow>
             (case getItem ev iid of
                None \<Rightarrow> (Failed NotFound, s)
              | Some it \<Rightarrow> (Ok, update_item (ev_id ev) iid (\<lambda>i. i\<lparr>endTime := None\<rparr>) s))))"

text \<open>The mutation of \<open>host:markSold\<close>; the payment window is two minutes.\<close>

definition mark_sold :: "int \<Rightarrow> item \<Rightarrow> item" where
  "mark_sold now i =
     (let j = i\<lparr>status := Sold, endTime := None\<rparr>
      in if truthy_str (currentWinner j)
         then j\<lparr>paymentStatus := Pending, paymentWinnerName := currentWinner j,
                paymentDueAt := Some (js_add (js_now now) (Fin 120000))\<rparr>
         else j)"

text \<open>Handler \<open>host:markSold\<close>.\<close>

definition host_markSold :: "int \<Rightarrow> server \<Rightarrow> socket_data \<Rightarrow> nat \<Rightarrow> nat \<Rightarrow> reply \<times> server" where
  "host_markSold now s sd eid iid =
     (if role sd \<noteq> Host then (Failed HostOnly, s)
      else
        (case getEvent s eid of
           None \<Rightarrow> (Failed NotFound, s)
         | Some ev \<Rightarrow>
             (case getItem ev iid of
                None \<Rightarrow> (Failed NotFound, s)
              | Some it \<Rightarrow> (Ok, update_item (ev_id ev) iid (mark_sold now) s))))"

text \<open>The mutation of \<open>host:reopen\<close>.\<close>

definition reopen :: "int \<Rightarrow> item \<Rightarrow> item" where
  "reopen now i =
     (let j = i\<lparr>status := Open\<rparr>;
          k = (if deadline_reached now (endTime j) then j\<lparr>endTime := None\<rparr> else j)
      in k\<lparr>paymentStatus := PayNone, paymentDueAt := None, paymentWinnerName := None\<rparr>)"

text \<open>Handler \<open>host:reopen\<close>.\<close>

definition host_reopen :: "int \<Rightarrow> server \<Rightarrow> socket_data \<Rightarrow> nat \<Rightarrow> nat \<Rightarrow> reply \<times> server" where
  "host_reopen now s sd eid iid =
     (if role sd \<noteq> Host then (Failed HostOnly, s)
      else
        (case getEvent s eid of
           None \<Rightarrow> (Failed NotFound, s)
         | Some ev \<Rightarrow>
             (case getItem ev iid of
                None \<Rightarrow> (Failed NotFound, s)
              | Some it \<Rightarrow> (Ok, update_item (ev_id ev) iid (reopen now) s))))"

text \<open>Handler \<open>host:setCurrentLot\<close>; the item id \<open>0\<close> counts as absent.\<close>

definition host_setCurrentLot :: "server \<Rightarrow> socket_data \<Rightarrow> nat \<Rightarrow> nat \<Rightarrow> reply \<times> server" where
  "host_setCurrentLot s sd eid iid =
     (if role sd \<noteq> Host then (Failed HostOnly, s)
      else
        (case getEvent s eid of
           None \<Rightarrow> (Failed EventNotFound, s)
         | Some ev \<Rightarrow>
             (if iid \<noteq> 0 \<and> getItem ev iid = None then (Failed ItemNotFound, s)
              else (Ok, update_event (ev_id ev)
                      (\<lambda>e. e\<lparr>currentLotId := (if iid \<noteq> 0 then Some iid else None)\<rparr>) s))))"

section \<open>Bidder handlers\<close>

text \<open>\<open>socket.data.displayName || String(name || "Anonymous").slice(0, 40)\<close>.\<close>

definition effectiveName :: "socket_data \<Rightarrow> string option \<Rightarrow> string" where
  "effectiveName sd nm =
     (case displayName sd of
        Some d \<Rightarrow> if d \<noteq> [] then d
                  else take 40 (if truthy_str nm then str_or_empty nm else ''Anonymous'')
      | None \<Rightarrow> take 40 (if truthy_str nm then str_or_empty nm else ''Anonymous''))"

text \<open>\<open>Math.max(item.openingBid, item.currentBid)\<close>.\<close>

definition minAcceptable :: "item \<Rightarrow> jsnum" where
  "minAcceptable i = js_max (openingBid i) (currentBid i)"

text \<open>The threshold \<open>required\<close> of \<open>placeBid\<close>: \<open>minAcceptable + (minIncrement || 0)\<close>,
  replaced by \<open>minAcceptable + Number.EPSILON\<close> when the increment is \<open>0\<close>.\<close>

definition required :: "event \<Rightarrow> item \<Rightarrow> jsnum" where
  "required ev i =
     (if minIncrement ev = Fin 0 then js_add (minAcceptable i) EPSILON
      else js_add (minAcceptable i) (if truthy (minIncrement ev) then minIncrement ev else Fin 0))"

text \<open>The mutation of an accepted bid.\<close>

definition accept_bid :: "int \<Rightarrow> string \<Rightarrow> jsnum \<Rightarrow> item \<Rightarrow> item" where
  "accept_bid now who amt i =
     (let j = i\<lparr>currentBid := amt, currentWinner := Some who,
                bidHistory := bidHistory i @ [\<lparr>bid_name = who, bid_amount = amt, bid_time = now\<rparr>]\<rparr>
      in if paymentStatus j \<noteq> PayNone
         then j\<lparr>paymentStatus := PayNone, paymentDueAt := None, paymentWinnerName := None\<rparr>
         else j)"

text \<open>Handler \<open>placeBid\<close>; \<open>amt\<close> is \<open>Number(amount)\<close>, \<open>nm\<close> the payload's \<open>name\<close>.\<close>

definition placeBid ::
  "int \<Rightarrow> server \<Rightarrow> socket_data \<Rightarrow> nat \<Rightarrow> nat \<Rightarrow> jsnum \<Rightarrow> string option \<Rightarrow> reply \<times> server" where
  "placeBid now s sd eid iid amt nm =
     (if role sd \<noteq> Bidder then (Failed OnlyBidders, s)
      else
        (case getEvent s eid of
           None \<Rightarrow> (Failed NotFound, s)
         | Some ev \<Rightarrow>
             (case getItem ev iid of
                None \<Rightarrow> (Failed NotFound, s)
              | Some it \<Rightarrow>
                  (if eventId sd \<noteq> Some (ev_id ev) then (Failed JoinFirst, s)
                   else if \<not> nameLocked sd \<or> Some (effectiveName sd nm) \<noteq> displayName sd
                     then (Failed NameLocked, s)
                   else if status it \<noteq> Open then (Failed (BiddingClosed (status it)), s)
                   else if deadline_reached now (endTime it)
                     then (Failed WindowClosed,
                           update_item (ev_id ev) iid (\<lambda>i. i\<lparr>status := Closed, endTime := None\<rparr>) s)
                   else if \<not> is_finite amt \<or> js_le amt (Fin 0) then (Failed BadAmount, s)
                   else if js_lt amt (required ev it)
                     then (if js_gt (minIncrement ev) (Fin 0)
                           then (Failed (BidTooLowIncrement (minIncrement ev) (required ev it)), s)
                           else (Failed (BidTooLowCurrent (minAcceptable it)), s))
                   else (Ok, update_item (ev_id ev) iid (accept_bid now (effectiveName sd nm) amt) s)))))"

text \<open>Handler \<open>payment:confirm\<close>.\<close>

definition payment_confirm ::
  "int \<Rightarrow> server \<Rightarrow> socket_data \<Rightarrow> nat \<Rightarrow> nat \<Rightarrow> reply \<times> server" where
  "payment_confirm now s sd eid iid =
     (case getEvent s eid of
        None \<Rightarrow> (Failed NotFound, s)
      | Some ev \<Rightarrow>
          (case getItem ev iid of
             None \<Rightarrow> (Failed NotFound, s)
           | Some it \<Rightarrow>
               (if status it \<noteq> Sold then (Failed ItemNotSold, s)
                else if paymentStatus it \<noteq> Pending then (Failed NoPendingPayment, s)
                else if paymentProfile sd = None then (Failed SetupProfileFirst, s)
                else if displayName sd \<noteq> paymentWinnerName it then (Failed OnlyWinner, s)
                else if deadline_passed now (paymentDueAt it)
                  then (Failed PaymentWindowExpired,
                        update_item (ev_id ev) iid (\<lambda>i. i\<lparr>paymentStatus := Expired\<rparr>) s)
                else (Ok, update_item (ev_id ev) iid
                        (\<lambda>i. i\<lparr>paymentStatus := Confirmed, paymentDueAt := None\<rparr>) s))))"

section \<open>The periodic sweep\<close>

text \<open>The body of the inner loop of the \<open>setInterval\<close> callback, for one item.\<close>

definition sweep_item :: "int \<Rightarrow> item \<Rightarrow> item" where
  "sweep_item now i =
     (let j = (if status i = Open \<and> deadline_reached now (endTime i)
               then i\<lparr>status := Closed, endTime := None\<rparr> else i)
      in if status j = Sold \<and> paymentStatus j = Pending \<and> deadline_passed now (paymentDueAt j)
         then j\<lparr>paymentStatus := Expired\<rparr> else j)"

text \<open>One tick: every item of every event.\<close>

definition sweep :: "int \<Rightarrow> server \<Rightarrow> server" where
  "sweep now s =
     s\<lparr>events := map (\<lambda>e. e\<lparr>items := map (sweep_item now) (items e)\<rparr>) (events s)\<rparr>"

section \<open>Observations\<close>

text \<open>What every item handler starts with: \<open>getItem(getEvent(eventId), itemId)\<close>.\<close>

definition lookup_item :: "server \<Rightarrow> nat \<Rightarrow> nat \<Rightarrow> item option" where
  "lookup_item s eid iid = (case getEvent s eid of None \<Rightarrow> None | Some ev \<Rightarrow> getItem ev iid)"

text \<open>The checks of \<open>placeBid\<close> that come before the item's status is looked at: the
  connection is a bidder, has joined this event, and bids under its locked name.\<close>

definition bound_bidder :: "socket_data \<Rightarrow> nat \<Rightarrow> string option \<Rightarrow> bool" where
  "bound_bidder sd eid nm =
     (role sd = Bidder \<and> eventId sd = Some eid \<and> nameLocked sd
      \<and> Some (effectiveName sd nm) = displayName sd)"

section \<open>The system and its invariants\<close>

text \<open>What holds of the payment window of an item in every reachable state: while it is
  pending the item is sold, the winner of the sale is recorded, and the deadline is set.\<close>

definition payment_inv :: "item \<Rightarrow> bool" where
  "payment_inv i =
     (paymentStatus i = Pending \<longrightarrow>
        status i = Sold \<and> truthy_str (paymentWinnerName i)
        \<and> (case paymentDueAt i of None \<Rightarrow> False | Some d \<Rightarrow> truthy d))"

text \<open>What holds of a connection in every reachable state: a display name is only ever
  set together with, or after, a payment profile.\<close>

definition profile_inv :: "socket_data \<Rightarrow> bool" where
  "profile_inv sd = (displayName sd \<noteq> None \<longrightarrow> paymentProfile sd \<noteq> None)"

text \<open>And a display name is never empty and has no white space at either end: it is a
  trimmed name of \<open>profile:setup\<close> or of \<open>event:join\<close>.\<close>

definition name_inv :: "socket_data \<Rightarrow> bool" where
  "name_inv sd = (case displayName sd of None \<Rightarrow> True | Some d \<Rightarrow> d \<noteq> [] \<and> trim d = d)"

text \<open>What the handlers maintain of every item besides: the amounts are finite, the
  payment sub-state is \<open>none\<close> unless the item is sold, and a deadline is only set on an open
  item. Of every event: the minimum increment is finite and not negative.\<close>

definition item_inv :: "item \<Rightarrow> bool" where
  "item_inv i =
     (is_finite (openingBid i) \<and> is_finite (currentBid i)
      \<and> (status i \<noteq> Sold \<longrightarrow> paymentStatus i = PayNone)
      \<and> (endTime i \<noteq> None \<longrightarrow> status i = Open)
      \<and> payment_inv i)"

definition event_inv :: "event \<Rightarrow> bool" where
  "event_inv ev =
     (is_finite (minIncrement ev) \<and> \<not> js_lt (minIncrement ev) (Fin 0)
      \<and> list_all item_inv (items ev))"

definition server_inv :: "server \<Rightarrow> bool" where
  "server_inv s = list_all event_inv (events s)"

text \<open>The whole system: the store and the connections that are open, by socket number.\<close>

record world =
  srv :: server
  conns :: "nat \<Rightarrow> socket_data option"

datatype command =
    Auth "string option" "string option"
  | ProfileSetup "string option" "string option" "string option" "string option"
  | CreateEvent "string option" "string option" bool "string option"
  | Join nat "string option" "string option"
  | Disconnect
  | SetMinIncrement nat jsnum
  | CreateItem nat "string option" "string option" jsnum "string option"
  | StartTimer nat nat jsval
  | StopTimer nat nat
  | MarkSold nat nat
  | Reopen nat nat
  | SetCurrentLot nat nat
  | PlaceBid nat nat jsnum "string option"
  | ConfirmPayment nat nat

text \<open>The effect of one message of connection \<open>c\<close>, whose data is \<open>sd\<close>, at time \<open>now\<close>.\<close>

fun exec :: "int \<Rightarrow> nat \<Rightarrow> socket_data \<Rightarrow> command \<Rightarrow> world \<Rightarrow> world" where
  "exec now c sd (Auth r p) w = w\<lparr>conns := (conns w)(c \<mapsto> snd (auth (srv w) sd r p))\<rparr>"
| "exec now c sd (ProfileSetup n e k a) w =
     w\<lparr>conns := (conns w)(c \<mapsto> snd (profile_setup sd n e k a))\<rparr>"
| "exec now c sd (CreateEvent n l p pw) w = w\<lparr>srv := snd (host_createEvent (srv w) sd n l p pw)\<rparr>"
| "exec now c sd (Join eid n pw) w =
     w\<lparr>srv := fst (snd (event_join (srv w) sd eid n pw)),
       conns := (conns w)(c \<mapsto> snd (snd (event_join (srv w) sd eid n pw)))\<rparr>"
| "exec now c sd Disconnect w = w\<lparr>srv := disconnect (srv w) sd, conns := (conns w)(c := None)\<rparr>"
| "exec now c sd (SetMinIncrement eid v) w = w\<lparr>srv := snd (host_setMinIncrement (srv w) sd eid v)\<rparr>"
| "exec now c sd (CreateItem eid t d ob img) w =
     w\<lparr>srv := snd (host_createItem (srv w) sd eid t d ob img)\<rparr>"
| "exec now c sd (StartTimer eid iid d) w = w\<lparr>srv := snd (host_startTimer now (srv w) sd eid iid d)\<rparr>"
| "exec now c sd (StopTimer eid iid) w = w\<lparr>srv := snd (host_stopTimer (srv w) sd eid iid)\<rparr>"
| "exec now c sd (MarkSold eid iid) w = w\<lparr>srv := snd (host_markSold now (srv w) sd eid iid)\<rparr>"
| "exec now c sd (Reopen eid iid) w = w\<lparr>srv := snd (host_reopen now (srv w) sd eid iid)\<rparr>"
| "exec now c sd (SetCurrentLot eid iid) w = w\<lparr>srv := snd (host_setCurrentLot (srv w) sd eid iid)\<rparr>"
| "exec now c sd (PlaceBid eid iid amt n) w = w\<lparr>srv := snd (placeBid now (srv w) sd eid iid amt n)\<rparr>"
| "exec now c sd (ConfirmPayment eid iid) w = w\<lparr>srv := snd (payment_confirm now (srv w) sd eid iid)\<rparr>"

text \<open>The states the system can be in: a fresh process; a new connection; a message of an
  open connection, at a time between the epoch and \<open>2 ^ 52\<close> milliseconds after it; a tick
  of the sweep.\<close>

inductive reachable :: "world \<Rightarrow> bool" where
  start: "tok \<noteq> [] \<Longrightarrow> reachable \<lparr>srv = init_server tok, conns = Map.empty\<rparr>"
| connect: "reachable w \<Longrightarrow> conns w c = None \<Longrightarrow> reachable (w\<lparr>conns := (conns w)(c \<mapsto> init_socket)\<rparr>)"
| message: "reachable w \<Longrightarrow> conns w c = Some sd \<Longrightarrow> 0 < now \<Longrightarrow> now < 2 ^ 52
     \<Longrightarrow> reachable (exec now c sd cmd w)"
| tick: "reachable w \<Longrightarrow> reachable (w\<lparr>srv := sweep now (srv w)\<rparr>)"

definition world_inv :: "world \<Rightarrow> bool" where
  "world_inv w = (server_inv (srv w) \<and> (\<forall>c sd. conns w c = Some sd \<longrightarrow> profile_inv sd))"

section \<open>Sample states\<close>

text \<open>A small auction used for the concrete checks below: one event with one item, a host,
  and bidders that have set up a profile and joined.\<close>

definition bidder_conn :: "string \<Rightarrow> socket_data" where
  "bidder_conn n = \<lparr>role = Bidder, eventId = Some 1, nameLocked = True, displayName = Some n,
     paymentProfile = Some \<lparr>pf_name = n, email = ''bidder@example.org'', last4 = ''4242'',
       deliveryAddress = []\<rparr>\<rparr>"

definition host_conn :: socket_data where
  "host_conn = \<lparr>role = Host, eventId = None, nameLocked = False, displayName = None,
     paymentProfile = None\<rparr>"

definition lot :: "jsnum \<Rightarrow> item" where
  "lot ob = \<lparr>item_id = 1, title = ''Vase'', description = [], openingBid = ob, currentBid = ob,
     currentWinner = None, bidHistory = [], status = Open, endTime = None, imageUrl = None,
     paymentStatus = PayNone, paymentDueAt = None, paymentWinnerName = None\<rparr>"

definition hall :: "jsnum \<Rightarrow> item \<Rightarrow> event" where
  "hall inc i = \<lparr>ev_id = 1, ev_name = ''Spring sale'', location = ''Hall'', isProtected = False,
     password = [], items = [i], minIncrement = inc, currentLotId = None,
     participants = {''Alice''}, active = True\<rparr>"

definition auction :: "jsnum \<Rightarrow> item \<Rightarrow> server" where
  "auction inc i =
     \<lparr>events = [hall inc i], nextEventId = 2, nextItemId = 2, ADMIN_TOKEN = ''1234''\<rparr>"

text \<open>The item of the sample auction after a bid of Alice and its sale at time \<open>5000\<close>.\<close>

definition sold_lot :: item where
  "sold_lot = \<lparr>item_id = 1, title = ''Vase'', description = [], openingBid = Fin 100,
     currentBid = Fin 120, currentWinner = Some ''Alice'',
     bidHistory = [\<lparr>bid_name = ''Alice'', bid_amount = Fin 120, bid_time = 3000\<rparr>],
     status = Sold, endTime = None, imageUrl = None,
     paymentStatus = Pending, paymentDueAt = Some (Fin 125000),
     paymentWinnerName = Some ''Alice''\<rparr>"

text \<open>A bidder that has set up a profile and not joined yet.\<close>

definition newcomer :: "string \<Rightarrow> socket_data" where
  "newcomer n = (bidder_conn n)\<lparr>eventId := None, nameLocked := False\<rparr>"

text \<open>The first bidder of the sample auction after a second \<open>profile:setup\<close>, under
  another name.\<close>

definition renamed_conn :: socket_data where
  "renamed_conn = (bidder_conn ''Alice'')\<lparr>displayName := Some ''Bob'',
     paymentProfile := Some \<lparr>pf_name = ''Bob'', email = ''alice@example.org'', last4 = [],
       deliveryAddress = []\<rparr>\<rparr>"

text \<open>The item of the sample auction after one and after two bids of \<open>100\<close>.\<close>

definition lot_after_first_bid :: item where
  "lot_after_first_bid = (lot (Fin 100))\<lparr>currentBid := Fin 100, currentWinner := Some ''Alice'',
     bidHistory := [\<lparr>bid_name = ''Alice'', bid_amount = Fin 100, bid_time = 1000\<rparr>]\<rparr>"

definition lot_after_second_bid :: item where
  "lot_after_second_bid = (lot (Fin 100))\<lparr>currentBid := Fin 100, currentWinner := Some ''Bob'',
     bidHistory := [\<lparr>bid_name = ''Alice'', bid_amount = Fin 100, bid_time = 1000\<rparr>,
                    \<lparr>bid_name = ''Bob'', bid_amount = Fin 100, bid_time = 2000\<rparr>]\<rparr>"

section \<open>Lookup and update\<close>

lemma find_Some_P: "find P xs = Some x \<Longrightarrow> P x"
  by (induction xs) (auto split: if_splits)

lemma find_update_first_same:
  "find P xs = Some x \<Longrightarrow> P (f x) \<Longrightarrow> find P (update_first P f xs) = Some (f x)"
  by (induction xs) (auto split: if_splits)

lemma find_update_first_None:
  "find P xs = None \<Longrightarrow> update_first P f xs = xs"
  by (induction xs) (auto split: if_splits)

lemma find_update_first_other:
  "\<forall>x. Q (f x) = Q x \<Longrightarrow> \<forall>x. P x \<longrightarrow> \<not> Q x \<Longrightarrow> find Q (update_first P f xs) = find Q xs"
  by (induction xs) (auto split: if_splits)


lemma getEvent_id: "getEvent s eid = Some ev \<Longrightarrow> ev_id ev = eid"
  unfolding getEvent_def by (drule find_Some_P) simp

lemma getItem_id: "getItem ev iid = Some it \<Longrightarrow> item_id it = iid"
  unfolding getItem_def by (drule find_Some_P) simp

lemma lookup_item_Some:
  "getEvent s eid = Some ev \<Longrightarrow> getItem ev iid = Some it \<Longrightarrow> lookup_item s eid iid = Some it"
  by (simp add: lookup_item_def)

text \<open>After an update that keeps the identifier, the handlers find the updated item.\<close>

lemma lookup_update_item_same:
  assumes "getEvent s eid = Some ev" and "getItem ev iid = Some it"
    and "item_id (f it) = item_id it"
  shows "lookup_item (update_item eid iid f s) eid iid = Some (f it)"
proof -
  have i: "item_id it = iid" using assms(2) by (rule getItem_id)
  have e: "ev_id ev = eid" using assms(1) by (rule getEvent_id)
  let ?g = "\<lambda>e. e\<lparr>items := update_first (\<lambda>i. item_id i = iid) f (items e)\<rparr>"
  have "getEvent (update_item eid iid f s) eid = Some (?g ev)"
    using assms(1) e unfolding getEvent_def update_item_def update_event_def
    by (simp add: find_update_first_same)
  moreover have "getItem (?g ev) iid = Some (f it)"
    using assms(2,3) i unfolding getItem_def by (simp add: find_update_first_same)
  ultimately show ?thesis by (simp add: lookup_item_def)
qed

text \<open>Every other item is found as before.\<close>

lemma lookup_update_item_other:
  assumes "\<forall>i. item_id (f i) = item_id i" and "eid' \<noteq> eid \<or> iid' \<noteq> iid"
  shows "lookup_item (update_item eid iid f s) eid' iid' = lookup_item s eid' iid'"
proof (cases "eid' = eid")
  case False
  then have "getEvent (update_item eid iid f s) eid' = getEvent s eid'"
    unfolding getEvent_def update_item_def update_event_def
    by (simp add: find_update_first_other)
  then show ?thesis by (simp add: lookup_item_def)
next
  case True
  with assms(2) have ne: "iid' \<noteq> iid" by simp
  let ?g = "\<lambda>e. e\<lparr>items := update_first (\<lambda>i. item_id i = iid) f (items e)\<rparr>"
  show ?thesis
  proof (cases "getEvent s eid")
    case None
    then have "update_item eid iid f s = s"
      unfolding getEvent_def update_item_def update_event_def
      by (simp add: find_update_first_None)
    then show ?thesis by simp
  next
    case (Some ev)
    then have e: "ev_id ev = eid" by (rule getEvent_id)
    have "getEvent (update_item eid iid f s) eid = Some (?g ev)"
      using Some e unfolding getEvent_def update_item_def update_event_def
      by (simp add: find_update_first_same)
    moreover have "getItem (?g ev) iid' = getItem ev iid'"
      using assms(1) ne unfolding getItem_def by (simp add: find_update_first_other)
    ultimately show ?thesis using True Some by (simp add: lookup_item_def)
  qed
qed

text \<open>An update of an event that keeps the identifier: the handlers find the updated event,
  and every other event as before. Leaving the previous event does not touch the event that
  is joined.\<close>

lemma getEvent_update_event_same:
  "getEvent s eid = Some ev \<Longrightarrow> ev_id (f ev) = ev_id ev
    \<Longrightarrow> getEvent (update_event eid f s) eid = Some (f ev)"
  using getEvent_id [of s eid ev] unfolding getEvent_def update_event_def
  by (simp add: find_update_first_same)

lemma getEvent_update_event_other:
  "k \<noteq> eid \<Longrightarrow> \<forall>e. ev_id (f e) = ev_id e
    \<Longrightarrow> getEvent (update_event k f s) eid = getEvent s eid"
  unfolding getEvent_def update_event_def by (simp add: find_update_first_other)

lemma getEvent_leave_previous: "getEvent (leave_previous sd eid s) eid = getEvent s eid"
  by (simp add: leave_previous_def getEvent_update_event_other split: option.splits)


text \<open>The sample auction.\<close>

lemma getEvent_auction: "getEvent (auction inc i) 1 = Some (hall inc i)"
  by (simp add: getEvent_def auction_def hall_def)

lemma getItem_hall: "item_id i = 1 \<Longrightarrow> getItem (hall inc i) 1 = Some i"
  by (simp add: getItem_def hall_def)

lemma update_item_auction:
  "item_id i = 1 \<Longrightarrow> update_item 1 1 f (auction inc i) = auction inc (f i)"
  by (simp add: update_item_def update_event_def auction_def hall_def)

section \<open>Facts about numbers\<close>





text \<open>
  Rounding, on the integers: an integer below \<open>2 ^ 53\<close> is a binary64 value, so rounding
  returns it; and from \<open>4\<close> on, adding \<open>2 ^ -52\<close> to it changes nothing, because the
  binary64 values are then at least \<open>2 ^ -50\<close> apart and the sum rounds back.
\<close>

lemma round_half_even_int: "round_half_even (of_int z) = z"
  by (simp add: round_half_even_def)

lemma round_half_even_below_half:
  "0 \<le> d \<Longrightarrow> d < 1 / 2 \<Longrightarrow> round_half_even (of_int z + d) = z"
proof -
  assume d: "0 \<le> d" "d < 1 / 2"
  then have f: "\<lfloor>of_int z + d\<rfloor> = z" by linarith
  show ?thesis using d by (simp add: round_half_even_def f)
qed

lemma bitlen_range:
  assumes "1 \<le> m" and "m < 2 ^ 53"
  shows "1 \<le> bitlen m \<and> bitlen m \<le> 53"
proof -
  have p: "0 < m" using assms by simp
  have b: "2 ^ nat (bitlen m - 1) \<le> m" using bitlen_bounds[OF p] by simp
  have nz: "bitlen m \<noteq> 0" using p by (simp add: bitlen_eq_zero_iff)
  have nn: "0 \<le> bitlen m" by (rule bitlen_nonneg)
  have "(2::int) ^ nat (bitlen m - 1) < 2 ^ 53" using b assms(2) by linarith
  then have "nat (bitlen m - 1) < 53"
    by (rule power_less_imp_less_exp[rotated]) simp
  then show ?thesis using nz nn by linarith
qed

lemma bitlen_ge3:
  assumes "4 \<le> m"
  shows "3 \<le> bitlen m"
proof -
  have p: "0 < m" using assms by simp
  have "m < 2 ^ nat (bitlen m)" using bitlen_bounds[OF p] by simp
  then have "(2::int) ^ 2 < 2 ^ nat (bitlen m)" using assms by simp
  then have "2 < nat (bitlen m)"
    by (rule power_less_imp_less_exp[rotated]) simp
  then show ?thesis by linarith
qed

lemma pow2_nonpos: "k \<le> 0 \<Longrightarrow> pow2 k = 1 / 2 ^ nat (- k)"
  by (cases "k = 0") (simp_all add: pow2_def)

lemma round_double_pos_int:
  assumes "1 \<le> m" and "m < 2 ^ 53"
  shows "round_double (of_int m) = Fin (of_int m)"
proof -
  let ?e = "bitlen m - 1"
  let ?K = "nat (52 - ?e)"
  have r: "1 \<le> bitlen m" "bitlen m \<le> 53" using bitlen_range[OF assms] by simp_all
  have a: "\<bar>of_int m :: rat\<bar> = of_int m" using assms by simp
  have one: "(1::rat) \<le> of_int m" using assms by simp
  have il: "ilog2 (of_int m) = ?e" using one by (simp add: ilog2_def)
  have mx: "max ?e (- 1022) = ?e" using r by simp
  have u: "pow2 (?e - 52) = 1 / 2 ^ ?K"
    using r by (subst pow2_nonpos) (simp_all add: algebra_simps)
  have q: "(of_int m :: rat) / (1 / 2 ^ ?K) = of_int (m * 2 ^ ?K)" by simp
  have rr: "of_int (round_half_even (of_int m / (1 / 2 ^ ?K))) * (1 / 2 ^ ?K) = (of_int m :: rat)"
    unfolding q round_half_even_int by simp
  have "(of_int m :: rat) < 2 ^ 53" using assms(2)
    by (metis of_int_less_iff of_int_numeral of_int_power)
  also have "\<dots> < 2 ^ 1024" by (rule power_strict_increasing) simp_all
  finally have small: "\<not> pow2 1024 \<le> (of_int m :: rat)" by (simp add: pow2_def)
  have nz: "(of_int m :: rat) \<noteq> 0" "(0::rat) < of_int m" using assms by simp_all
  show ?thesis
    unfolding round_double_def Let_def a il mx u rr using small nz by simp
qed

lemma round_double_int_plus_EPSILON:
  assumes "4 \<le> m" and "m < 2 ^ 53"
  shows "round_double (of_int m + pow2 (- 52)) = Fin (of_int m)"
proof -
  let ?x = "of_int m + pow2 (- 52) :: rat"
  let ?e = "bitlen m - 1"
  let ?K = "nat (52 - ?e)"
  have m1: "1 \<le> m" using assms by simp
  have r: "3 \<le> bitlen m" "bitlen m \<le> 53"
    using bitlen_range[OF m1 assms(2)] bitlen_ge3[OF assms(1)] by simp_all
  have eps: "pow2 (- 52) = 1 / 2 ^ 52" by (simp add: pow2_def)
  have e0: "(0::rat) < 1 / 2 ^ 52" "(1::rat) / 2 ^ 52 < 1" by simp_all
  have pos: "0 < ?x" using assms e0 unfolding eps by (simp add: add_pos_pos)
  have a: "\<bar>?x\<bar> = ?x" using pos by simp
  have fl: "\<lfloor>?x\<rfloor> = m" unfolding eps using e0 by linarith
  have one: "1 \<le> ?x" unfolding eps using m1 e0
    by (smt (verit) of_int_1_le_iff add_increasing2 less_eq_rat_def)
  have il: "ilog2 ?x = ?e" using one by (simp add: ilog2_def fl)
  have mx: "max ?e (- 1022) = ?e" using r by simp
  have u: "pow2 (?e - 52) = 1 / 2 ^ ?K"
    using r by (subst pow2_nonpos) (simp_all add: algebra_simps)
  have K: "?K \<le> 50" using r by simp
  have "(2::rat) ^ ?K \<le> 2 ^ 50" using K by (rule power_increasing) simp
  then have d1: "(2::rat) ^ ?K / 2 ^ 52 \<le> 2 ^ 50 / 2 ^ 52"
    by (rule divide_right_mono) simp
  have d: "(0::rat) \<le> 2 ^ ?K / 2 ^ 52" "(2::rat) ^ ?K / 2 ^ 52 < 1 / 2"
    using d1 by simp_all
  have q: "?x / (1 / 2 ^ ?K) = of_int (m * 2 ^ ?K) + 2 ^ ?K / 2 ^ 52"
    unfolding eps by (simp add: algebra_simps)
  have rr: "of_int (round_half_even (?x / (1 / 2 ^ ?K))) * (1 / 2 ^ ?K) = (of_int m :: rat)"
    unfolding q round_half_even_below_half[OF d] by simp
  have "(of_int m :: rat) < 2 ^ 53" using assms(2)
    by (metis of_int_less_iff of_int_numeral of_int_power)
  also have "\<dots> < 2 ^ 1024" by (rule power_strict_increasing) simp_all
  finally have small: "\<not> pow2 1024 \<le> (of_int m :: rat)" by (simp add: pow2_def)
  have nz: "?x \<noteq> 0" using pos by simp
  show ?thesis
    unfolding round_double_def Let_def a il mx u rr using small nz pos by simp
qed

lemma js_gt_iff_not_le: "is_finite a \<Longrightarrow> js_gt a (Fin 0) \<longleftrightarrow> \<not> js_le a (Fin 0)"
  by (cases a) (auto simp: js_gt_def)

lemma round_double_numeral:
  "(numeral k :: int) < 2 ^ 53 \<Longrightarrow> round_double (numeral k) = Fin (numeral k)"
  using round_double_pos_int [of "numeral k"] by simp

lemma js_le_iff_not_gt: "d \<noteq> NaN \<Longrightarrow> js_le (js_now now) d \<longleftrightarrow> \<not> js_gt (js_now now) d"
  by (cases d) (auto simp: js_gt_def js_now_def)

text \<open>Two sums in binary64: \<open>100 + 2 ^ -52\<close> is not representable and rounds back to
  \<open>100\<close> (the spacing of the binary64 values near \<open>100\<close> is \<open>2 ^ -46\<close>); \<open>100 + 50\<close> is exact.\<close>

lemma js_add_100_EPSILON: "js_add (Fin 100) EPSILON = Fin 100"
  using round_double_int_plus_EPSILON [of 100] by (simp add: EPSILON_def)


text \<open>Three values computed with the definitions, as the language computes them: the
  literal \<open>0.1\<close> is \<open>3602879701896397 / 2 ^ 55\<close>; the literal \<open>100.01\<close>; and \<open>1 + 2 ^ -52\<close>, which
  is the binary64 value that follows \<open>1\<close>, so that next to \<open>1\<close> the margin
  \<open>Number.EPSILON\<close> does what the handler wants of it.\<close>

lemma js_lit_tenth: "js_lit (1 / 10) = Fin (3602879701896397 / 36028797018963968)"
  by code_simp

lemma js_lit_100_01: "js_lit (10001 / 100) = Fin (7037578105208177 / 70368744177664)"
  by code_simp

lemma js_add_1_EPSILON: "js_add (Fin 1) EPSILON = Fin (1 + 1 / 2 ^ 52)"
  by code_simp

section \<open>The handlers on an item that is found\<close>

lemma host_startTimer_found:
  assumes "getEvent s eid = Some ev" and "getItem ev iid = Some it"
  shows "host_startTimer now s sd eid iid d =
     (if role sd \<noteq> Host then (Failed HostOnly, s)
      else if status it \<noteq> Open then (Failed ItemNotOpen, s)
      else if \<not> is_finite (duration_of d) \<or> js_le (duration_of d) (Fin 0)
        then (Failed BadDuration, s)
      else (Ok, update_item eid iid
              (\<lambda>i. i\<lparr>endTime := Some (js_add (js_now now) (js_mul (duration_of d) (Fin 1000)))\<rparr>)
              s))"
  using assms getEvent_id[OF assms(1)] by (simp add: host_startTimer_def Let_def)

lemma host_markSold_found:
  assumes "getEvent s eid = Some ev" and "getItem ev iid = Some it"
  shows "host_markSold now s sd eid iid =
     (if role sd \<noteq> Host then (Failed HostOnly, s)
      else (Ok, update_item eid iid (mark_sold now) s))"
  using assms getEvent_id[OF assms(1)] by (simp add: host_markSold_def)

lemma item_id_lot: "item_id (lot ob) = 1" "item_id ((lot ob)\<lparr>status := st\<rparr>) = 1"
  by (simp_all add: lot_def)

lemma placeBid_found:
  assumes "getEvent s eid = Some ev" and "getItem ev iid = Some it"
  shows "placeBid now s sd eid iid amt nm =
     (if role sd \<noteq> Bidder then (Failed OnlyBidders, s)
      else if eventId sd \<noteq> Some eid then (Failed JoinFirst, s)
      else if \<not> nameLocked sd \<or> Some (effectiveName sd nm) \<noteq> displayName sd
        then (Failed NameLocked, s)
      else if status it \<noteq> Open then (Failed (BiddingClosed (status it)), s)
      else if deadline_reached now (endTime it)
        then (Failed WindowClosed,
              update_item eid iid (\<lambda>i. i\<lparr>status := Closed, endTime := None\<rparr>) s)
      else if \<not> is_finite amt \<or> js_le amt (Fin 0) then (Failed BadAmount, s)
      else if js_lt amt (required ev it)
        then (if js_gt (minIncrement ev) (Fin 0)
              then (Failed (BidTooLowIncrement (minIncrement ev) (required ev it)), s)
              else (Failed (BidTooLowCurrent (minAcceptable it)), s))
      else (Ok, update_item eid iid (accept_bid now (effectiveName sd nm) amt) s))"
  using assms getEvent_id[OF assms(1)] by (simp add: placeBid_def)

lemma payment_confirm_found:
  assumes "getEvent s eid = Some ev" and "getItem ev iid = Some it"
  shows "payment_confirm now s sd eid iid =
     (if status it \<noteq> Sold then (Failed ItemNotSold, s)
      else if paymentStatus it \<noteq> Pending then (Failed NoPendingPayment, s)
      else if paymentProfile sd = None then (Failed SetupProfileFirst, s)
      else if displayName sd \<noteq> paymentWinnerName it then (Failed OnlyWinner, s)
      else if deadline_passed now (paymentDueAt it)
        then (Failed PaymentWindowExpired,
              update_item eid iid (\<lambda>i. i\<lparr>paymentStatus := Expired\<rparr>) s)
      else (Ok, update_item eid iid
              (\<lambda>i. i\<lparr>paymentStatus := Confirmed, paymentDueAt := None\<rparr>) s))"
  using assms getEvent_id[OF assms(1)] by (simp add: payment_confirm_def)

lemma item_id_sold_lot: "item_id sold_lot = 1"
  by (simp add: sold_lot_def)

lemma required_zero_increment_int:
  assumes "minIncrement ev = Fin 0" and "minAcceptable it = Fin (of_int m)"
    and "4 \<le> m" and "m < 2 ^ 53"
  shows "required ev it = Fin (of_int m)"
  using assms by (simp add: required_def EPSILON_def round_double_int_plus_EPSILON)

lemma required_100:
  "minIncrement ev = Fin 0 \<Longrightarrow> minAcceptable it = Fin 100 \<Longrightarrow> required ev it = Fin 100"
  using required_zero_increment_int [of ev it 100] by simp

lemma item_id_lot_after: "item_id lot_after_first_bid = 1" "item_id lot_after_second_bid = 1"
  by (simp_all add: lot_after_first_bid_def lot_after_second_bid_def lot_def)

text \<open>\<open>event:join\<close> of an event that is found, by a bidder with a profile who passes the
  password check.\<close>

lemma event_join_found:
  assumes "getEvent s eid = Some ev" and "paymentProfile sd \<noteq> None" and "role sd = Bidder"
    and "isProtected ev \<longrightarrow> str_or_empty pw = password ev"
  shows "event_join s sd eid nm pw =
    (case (if trim (str_or_empty nm) \<noteq> [] then Some (trim (str_or_empty nm)) else displayName sd) of
       None \<Rightarrow> (Failed NameMissing, s, sd)
     | Some n \<Rightarrow>
         if n = [] then (Failed NameMissing, s, sd)
         else if nameLocked sd \<and> truthy_str (displayName sd) \<and> eventId sd = Some eid
                 \<and> Some n \<noteq> displayName sd
           then (Failed NameChangeDenied, s, sd)
         else if (\<not> nameLocked sd \<or> eventId sd \<noteq> Some eid \<or> \<not> truthy_str (displayName sd))
                 \<and> n \<in> participants ev
           then (Failed NameConflict, s, sd)
         else (Ok,
               update_event eid (\<lambda>e. e\<lparr>participants := insert n (participants e)\<rparr>)
                 (leave_previous sd eid s),
               sd\<lparr>eventId := Some eid, displayName := Some n, nameLocked := True\<rparr>))"
  using assms getEvent_id [OF assms(1)] by (auto simp: event_join_def Let_def)

section \<open>Trimming\<close>

lemma dropWhile_rev_dropWhile_rev:
  assumes "ys = [] \<or> \<not> P (hd ys)"
  shows "dropWhile P (rev (dropWhile P (rev ys))) = rev (dropWhile P (rev ys))"
proof (cases "dropWhile P (rev ys) = []")
  case True
  show ?thesis unfolding True by simp
next
  case ne: False
  let ?zs = "dropWhile P (rev ys)"
  from ne have ys: "ys \<noteq> []" by auto
  with assms have h: "\<not> P (hd ys)" by simp
  have "rev (rev ?zs @ rev (takeWhile P (rev ys))) = rev ys" by simp
  then have "rev ?zs @ rev (takeWhile P (rev ys)) = ys" by (simp only: rev_is_rev_conv)
  then have "ys = rev ?zs @ rev (takeWhile P (rev ys))" by (rule sym)
  moreover have nz: "rev ?zs \<noteq> []" using ne by simp
  ultimately have "hd ys = hd (rev ?zs)" by (metis hd_append2)
  with h have "\<not> P (hd (rev ?zs))" by simp
  then show ?thesis using nz by (cases "rev ?zs") simp_all
qed

lemma trim_idem: "trim (trim x) = trim x"
proof -
  let ?ys = "dropWhile is_ws x"
  let ?zs = "dropWhile is_ws (rev ?ys)"
  have "?ys = [] \<or> \<not> is_ws (hd ?ys)" using hd_dropWhile[of is_ws x] by blast
  then have a: "dropWhile is_ws (rev ?zs) = rev ?zs" by (rule dropWhile_rev_dropWhile_rev)
  have b: "dropWhile is_ws ?zs = ?zs" by (rule dropWhile_idem)
  have "trim (trim x) = rev (dropWhile is_ws (rev (dropWhile is_ws (rev ?zs))))"
    by (simp only: trim_def)
  also have "\<dots> = rev (dropWhile is_ws (rev (rev ?zs)))" by (simp only: a)
  also have "\<dots> = rev ?zs" by (simp only: rev_rev_ident b)
  also have "\<dots> = trim x" by (simp only: trim_def)
  finally show ?thesis .
qed

lemma update_event_auction:
  "update_event 1 f (auction inc i) = (auction inc i)\<lparr>events := [f (hall inc i)]\<rparr>"
  by (simp add: update_event_def auction_def hall_def)

section \<open>The reachable states\<close>

lemma find_Some_mem: "find P xs = Some x \<Longrightarrow> x \<in> set xs"
  by (induction xs) (auto split: if_splits)

lemma set_update_first:
  "find P xs = Some x \<Longrightarrow> set (update_first P f xs) \<subseteq> insert (f x) (set xs)"
  by (induction xs) (auto split: if_splits)

lemma server_inv_update_event:
  assumes "server_inv s" and "getEvent s eid = Some ev" and "event_inv (f ev)"
  shows "server_inv (update_event eid f s)"
proof -
  have "set (update_first (\<lambda>e. ev_id e = eid) f (events s)) \<subseteq> insert (f ev) (set (events s))"
    using assms(2) unfolding getEvent_def by (rule set_update_first)
  then show ?thesis
    using assms(1,3) by (auto simp: server_inv_def update_event_def list_all_iff)
qed

lemma server_inv_update_event_any:
  assumes "server_inv s" and "\<And>e. event_inv e \<Longrightarrow> event_inv (f e)"
  shows "server_inv (update_event eid f s)"
proof (cases "getEvent s eid")
  case None
  then have "update_event eid f s = s"
    unfolding getEvent_def update_event_def by (simp add: find_update_first_None)
  with assms(1) show ?thesis by simp
next
  case (Some ev)
  then have "ev \<in> set (events s)" unfolding getEvent_def by (rule find_Some_mem)
  with assms(1) have "event_inv ev" by (simp add: server_inv_def list_all_iff)
  then have "event_inv (f ev)" by (rule assms(2))
  with assms(1) Some show ?thesis by (rule server_inv_update_event)
qed

lemma server_inv_found:
  assumes "server_inv s" and "getEvent s eid = Some ev"
  shows "event_inv ev"
  using assms find_Some_mem[of "\<lambda>e. ev_id e = eid" "events s" ev]
  by (simp add: server_inv_def getEvent_def list_all_iff)

lemma event_inv_found:
  assumes "event_inv ev" and "getItem ev iid = Some it"
  shows "item_inv it"
  using assms find_Some_mem[of "\<lambda>i. item_id i = iid" "items ev" it]
  by (simp add: event_inv_def getItem_def list_all_iff)

lemma server_inv_update_item:
  assumes s: "server_inv s" and ev: "getEvent s eid = Some ev" and it: "getItem ev iid = Some it"
    and f: "item_inv (f it)"
  shows "server_inv (update_item eid iid f s)"
proof -
  let ?g = "\<lambda>e. e\<lparr>items := update_first (\<lambda>i. item_id i = iid) f (items e)\<rparr>"
  have e: "event_inv ev" using s ev by (rule server_inv_found)
  have "set (update_first (\<lambda>i. item_id i = iid) f (items ev)) \<subseteq> insert (f it) (set (items ev))"
    using it unfolding getItem_def by (rule set_update_first)
  then have "event_inv (?g ev)"
    using e f by (auto simp: event_inv_def list_all_iff)
  then show ?thesis
    unfolding update_item_def using s ev by (intro server_inv_update_event)
qed

lemma due_truthy:
  assumes "0 < now" and "now < 2 ^ 52"
  shows "truthy (js_add (js_now now) (Fin 120000))"
proof -
  have sum: "(of_int now :: rat) + 120000 = of_int (now + 120000)" by simp
  have "1 \<le> now + 120000" using assms by simp
  moreover have "now + 120000 < 2 ^ 53" using assms by simp
  ultimately have "round_double (of_int (now + 120000)) = Fin (of_int (now + 120000))"
    by (rule round_double_pos_int)
  then have "js_add (js_now now) (Fin 120000) = Fin (of_int (now + 120000))"
    by (simp only: js_now_def js_add.simps sum)
  moreover have "(of_int (now + 120000) :: rat) \<noteq> 0" using assms by simp
  ultimately show ?thesis by (simp add: truthy_def del: of_int_add)
qed

lemma item_inv_mark_sold:
  "item_inv i \<Longrightarrow> 0 < now \<Longrightarrow> now < 2 ^ 52 \<Longrightarrow> item_inv (mark_sold now i)"
  by (simp add: item_inv_def payment_inv_def mark_sold_def Let_def due_truthy)

lemma item_inv_reopen: "item_inv i \<Longrightarrow> item_inv (reopen now i)"
  by (simp add: item_inv_def payment_inv_def reopen_def Let_def)

lemma item_inv_accept_bid:
  "item_inv i \<Longrightarrow> is_finite amt \<Longrightarrow> item_inv (accept_bid now who amt i)"
  by (auto simp: item_inv_def payment_inv_def accept_bid_def Let_def)

lemma item_inv_close:
  "item_inv i \<Longrightarrow> status i = Open \<Longrightarrow> item_inv (i\<lparr>status := Closed, endTime := None\<rparr>)"
  by (simp add: item_inv_def payment_inv_def)

lemma item_inv_sweep_item: "item_inv i \<Longrightarrow> item_inv (sweep_item now i)"
  by (auto simp: item_inv_def payment_inv_def sweep_item_def Let_def)

lemma server_inv_update_item_found:
  assumes "server_inv s" and "getEvent s eid = Some ev" and "getItem ev iid = Some it"
    and "item_inv it \<Longrightarrow> item_inv (f it)"
  shows "server_inv (update_item (ev_id ev) iid f s)"
proof -
  have "item_inv it" using assms(1-3) by (blast intro: server_inv_found event_inv_found)
  then have "item_inv (f it)" by (rule assms(4))
  with assms(1-3) show ?thesis
    unfolding getEvent_id [OF assms(2)] by (rule server_inv_update_item)
qed

lemma server_inv_host_createEvent:
  "server_inv s \<Longrightarrow> server_inv (snd (host_createEvent s sd n l p pw))"
  by (simp add: host_createEvent_def Let_def server_inv_def event_inv_def)

lemma server_inv_event_join:
  assumes "server_inv s"
  shows "server_inv (fst (snd (event_join s sd eid n pw)))"
proof -
  have del: "\<And>k x. server_inv (update_event k (\<lambda>e. e\<lparr>participants := participants e - {x}\<rparr>) s)"
    using assms by (rule server_inv_update_event_any) (simp add: event_inv_def)
  have lp: "\<And>k. server_inv (leave_previous sd k s)"
    using assms del by (simp add: leave_previous_def split: option.splits)
  have "\<And>k x. server_inv (update_event k (\<lambda>e. e\<lparr>participants := insert x (participants e)\<rparr>)
      (leave_previous sd k s))"
    using lp by (rule server_inv_update_event_any) (simp add: event_inv_def)
  then show ?thesis
    using assms by (simp add: event_join_def Let_def split: option.splits)
qed

lemma server_inv_disconnect: "server_inv s \<Longrightarrow> server_inv (disconnect s sd)"
  by (auto simp: disconnect_def Let_def event_inv_def split: option.splits
      intro!: server_inv_update_event_any)

lemma server_inv_host_setMinIncrement:
  "server_inv s \<Longrightarrow> server_inv (snd (host_setMinIncrement s sd eid v))"
  by (auto simp: host_setMinIncrement_def event_inv_def split: option.splits
      intro!: server_inv_update_event_any)

lemma server_inv_nextItemId: "server_inv (s\<lparr>nextItemId := k\<rparr>) = server_inv s"
  by (simp add: server_inv_def)

lemma server_inv_host_createItem:
  "server_inv s \<Longrightarrow> server_inv (snd (host_createItem s sd eid t d ob img))"
  by (auto simp: host_createItem_def Let_def event_inv_def item_inv_def payment_inv_def
      server_inv_nextItemId split: option.splits intro!: server_inv_update_event_any)

lemma server_inv_host_startTimer:
  "server_inv s \<Longrightarrow> server_inv (snd (host_startTimer now s sd eid iid d))"
  by (auto simp: host_startTimer_def Let_def item_inv_def payment_inv_def split: option.splits
      intro!: server_inv_update_item_found)

lemma server_inv_host_stopTimer:
  "server_inv s \<Longrightarrow> server_inv (snd (host_stopTimer s sd eid iid))"
  by (auto simp: host_stopTimer_def item_inv_def payment_inv_def split: option.splits
      intro!: server_inv_update_item_found)

lemma server_inv_host_markSold:
  "server_inv s \<Longrightarrow> 0 < now \<Longrightarrow> now < 2 ^ 52 \<Longrightarrow> server_inv (snd (host_markSold now s sd eid iid))"
  by (auto simp: host_markSold_def split: option.splits
      intro!: server_inv_update_item_found item_inv_mark_sold)

lemma server_inv_host_reopen:
  "server_inv s \<Longrightarrow> server_inv (snd (host_reopen now s sd eid iid))"
  by (auto simp: host_reopen_def split: option.splits
      intro!: server_inv_update_item_found item_inv_reopen)

lemma server_inv_host_setCurrentLot:
  "server_inv s \<Longrightarrow> server_inv (snd (host_setCurrentLot s sd eid iid))"
  by (auto simp: host_setCurrentLot_def event_inv_def split: option.splits
      intro!: server_inv_update_event_any)

lemma server_inv_placeBid:
  "server_inv s \<Longrightarrow> server_inv (snd (placeBid now s sd eid iid amt nm))"
  by (auto simp: placeBid_def split: option.splits
      intro!: server_inv_update_item_found item_inv_accept_bid item_inv_close)

lemma server_inv_payment_confirm:
  "server_inv s \<Longrightarrow> server_inv (snd (payment_confirm now s sd eid iid))"
  by (auto simp: payment_confirm_def item_inv_def payment_inv_def split: option.splits
      intro!: server_inv_update_item_found)

lemma server_inv_sweep: "server_inv s \<Longrightarrow> server_inv (sweep now s)"
  by (auto simp: server_inv_def event_inv_def sweep_def list_all_iff intro: item_inv_sweep_item)

lemma profile_inv_auth: "profile_inv sd \<Longrightarrow> profile_inv (snd (auth s sd r p))"
  by (simp add: auth_def Let_def profile_inv_def)

lemma profile_inv_profile_setup: "profile_inv sd \<Longrightarrow> profile_inv (snd (profile_setup sd n e k a))"
  by (simp add: profile_setup_def Let_def profile_inv_def)

lemma profile_inv_event_join:
  "profile_inv sd \<Longrightarrow> profile_inv (snd (snd (event_join s sd eid n pw)))"
  by (auto simp: event_join_def Let_def profile_inv_def split: option.splits)

lemma world_inv_exec:
  assumes "world_inv w" and "conns w c = Some sd" and "0 < now" and "now < 2 ^ 52"
  shows "world_inv (exec now c sd cmd w)"
proof -
  have s: "server_inv (srv w)" and p: "profile_inv sd"
    and all: "\<And>c sd. conns w c = Some sd \<Longrightarrow> profile_inv sd"
    using assms(1,2) by (auto simp: world_inv_def)
  show ?thesis
  proof (cases cmd)
    case (MarkSold eid iid)
    then show ?thesis
      using s all assms(3,4) by (simp add: world_inv_def server_inv_host_markSold)
  next
    case (Join eid n pw)
    then show ?thesis
      using s p all by (simp add: world_inv_def server_inv_event_join profile_inv_event_join)
  qed (use s p all in \<open>simp_all add: world_inv_def profile_inv_auth profile_inv_profile_setup
      server_inv_host_createEvent server_inv_disconnect server_inv_host_setMinIncrement
      server_inv_host_createItem server_inv_host_startTimer server_inv_host_stopTimer
      server_inv_host_reopen server_inv_host_setCurrentLot server_inv_placeBid
      server_inv_payment_confirm\<close>)
qed

lemma reachable_world_inv: "reachable w \<Longrightarrow> world_inv w"
proof (induction rule: reachable.induct)
  case (start tok)
  show ?case by (simp add: world_inv_def server_inv_def init_server_def)
next
  case (connect w c)
  then show ?case by (simp add: world_inv_def profile_inv_def init_socket_def)
next
  case (message w c sd now cmd)
  then show ?case by (intro world_inv_exec)
next
  case (tick w now)
  then show ?case by (simp add: world_inv_def server_inv_sweep)
qed

text \<open>In a reachable state, the item and the connection of a handler call are as the
  theorems on the payment window and on the pricing rule assume.\<close>

lemma reachable_found:
  assumes "reachable w" and "conns w c = Some sd"
    and "getEvent (srv w) eid = Some ev" and "getItem ev iid = Some it"
  shows "profile_inv sd \<and> payment_inv it \<and> is_finite (openingBid it) \<and> is_finite (currentBid it)
    \<and> is_finite (minIncrement ev) \<and> \<not> js_lt (minIncrement ev) (Fin 0)"
proof -
  have w: "world_inv w" using assms(1) by (rule reachable_world_inv)
  then have s: "server_inv (srv w)" and p: "profile_inv sd"
    using assms(2) by (auto simp: world_inv_def)
  have e: "event_inv ev" using s assms(3) by (rule server_inv_found)
  have i: "item_inv it" using e assms(4) by (rule event_inv_found)
  show ?thesis using p e i by (simp add: event_inv_def item_inv_def)
qed

text \<open>In a reachable state, a display name of a connection is not empty, is trimmed, and
  comes with a profile.\<close>

lemma name_inv_auth: "name_inv sd \<Longrightarrow> name_inv (snd (auth s sd r p))"
  by (simp add: auth_def Let_def name_inv_def)

lemma name_inv_profile_setup: "name_inv sd \<Longrightarrow> name_inv (snd (profile_setup sd n e k a))"
  by (simp add: profile_setup_def Let_def name_inv_def trim_idem)

lemma name_inv_event_join: "name_inv sd \<Longrightarrow> name_inv (snd (snd (event_join s sd eid n pw)))"
  by (auto simp: event_join_def Let_def name_inv_def trim_idem split: option.splits if_splits)

lemma name_inv_exec:
  assumes "\<forall>c sd. conns w c = Some sd \<longrightarrow> name_inv sd" and "conns w c = Some sd"
  shows "\<forall>c' sd'. conns (exec now c sd cmd w) c' = Some sd' \<longrightarrow> name_inv sd'"
  using assms
  by (cases cmd) (auto simp: name_inv_auth name_inv_profile_setup name_inv_event_join)

lemma reachable_name_inv: "reachable w \<Longrightarrow> \<forall>c sd. conns w c = Some sd \<longrightarrow> name_inv sd"
proof (induction rule: reachable.induct)
  case (start tok)
  show ?case by simp
next
  case (connect w c)
  then show ?case by (simp add: name_inv_def init_socket_def)
next
  case (message w c sd now cmd)
  then show ?case by (intro name_inv_exec)
next
  case (tick w now)
  then show ?case by simp
qed

lemma reachable_display_name:
  assumes "reachable w" and "conns w c = Some sd" and "displayName sd = Some d"
  shows "d \<noteq> [] \<and> trim d = d \<and> paymentProfile sd \<noteq> None"
proof -
  have "name_inv sd" using reachable_name_inv [OF assms(1)] assms(2) by blast
  moreover have "profile_inv sd" using reachable_world_inv [OF assms(1)] assms(2)
    by (auto simp: world_inv_def)
  ultimately show ?thesis using assms(3) by (simp add: name_inv_def profile_inv_def)
qed

lemma newcomer_reached:
  "snd (profile_setup (init_socket\<lparr>role := Bidder\<rparr>) (Some ''Alice'')
          (Some ''bidder@example.org'') (Some ''4242'') None) = newcomer ''Alice''"
  "snd (profile_setup (init_socket\<lparr>role := Bidder\<rparr>) (Some ''Bob'')
          (Some ''bidder@example.org'') (Some ''4242'') None) = newcomer ''Bob''"
  by (simp_all add: profile_setup_def init_socket_def newcomer_def bidder_conn_def
      str_or_empty_def trim_def is_ws_def Let_def)

text \<open>The sample auction is a state of the system: the host logs in, creates the event and
  the item; the bidder asks for the role, sets up the profile and joins.\<close>

lemma sample_reachable:
  "reachable \<lparr>srv = auction (Fin 0) (lot (Fin 100)),
      conns = [0 \<mapsto> host_conn, 1 \<mapsto> bidder_conn ''Alice'']\<rparr>"
proof -
  let ?s0 = "init_server ''1234''"
  let ?e0 = "(hall (Fin 0) (lot (Fin 100)))\<lparr>items := [], participants := {}\<rparr>"
  let ?s1 = "\<lparr>events = [?e0], nextEventId = 2, nextItemId = 1, ADMIN_TOKEN = ''1234''\<rparr>"
  let ?s2 = "(auction (Fin 0) (lot (Fin 100)))
      \<lparr>events := [(hall (Fin 0) (lot (Fin 100)))\<lparr>participants := {}\<rparr>]\<rparr>"
  have n: "(0::int) < 1000" "(1000::int) < 2 ^ 52" by simp_all
  have r0: "reachable \<lparr>srv = ?s0, conns = Map.empty\<rparr>" by (rule reachable.start) simp
  have "reachable \<lparr>srv = ?s0, conns = [0 \<mapsto> init_socket]\<rparr>"
    using reachable.connect [OF r0, of 0] by simp
  from reachable.message [OF this _ n, of 0 init_socket "Auth (Some ''host'') (Some ''1234'')"]
  have "reachable \<lparr>srv = ?s0, conns = [0 \<mapsto> host_conn]\<rparr>"
    by (simp add: auth_def isSiteAdmin_def js_String_def str_or_empty_def to_lower_def
        init_server_def init_socket_def host_conn_def)
  from reachable.message [OF this _ n, of 0 host_conn
      "CreateEvent (Some ''Spring sale'') (Some ''Hall'') False None"]
  have "reachable \<lparr>srv = ?s1, conns = [0 \<mapsto> host_conn]\<rparr>"
    by (simp add: host_createEvent_def host_conn_def init_server_def hall_def str_or_empty_def
        trim_def is_ws_def Let_def numeral_2_eq_2)
  from reachable.message [OF this _ n, of 0 host_conn
      "CreateItem 1 (Some ''Vase'') None (Fin 100) None"]
  have "reachable \<lparr>srv = ?s2, conns = [0 \<mapsto> host_conn]\<rparr>"
    by (simp add: host_createItem_def getEvent_def update_event_def host_conn_def hall_def
        auction_def lot_def str_or_empty_def trim_def is_ws_def truthy_str_def Let_def
        numeral_2_eq_2)
  from reachable.connect [OF this, of 1]
  have "reachable \<lparr>srv = ?s2, conns = [0 \<mapsto> host_conn, 1 \<mapsto> init_socket]\<rparr>" by simp
  from reachable.message [OF this _ n, of 1 init_socket "Auth (Some ''bidder'') None"]
  have "reachable \<lparr>srv = ?s2, conns = [0 \<mapsto> host_conn, 1 \<mapsto> init_socket\<lparr>role := Bidder\<rparr>]\<rparr>"
    by (simp add: auth_def str_or_empty_def to_lower_def)
  from reachable.message [OF this _ n, of 1 "init_socket\<lparr>role := Bidder\<rparr>"
      "ProfileSetup (Some ''Alice'') (Some ''bidder@example.org'') (Some ''4242'') None"]
  have "reachable \<lparr>srv = ?s2, conns = [0 \<mapsto> host_conn, 1 \<mapsto> newcomer ''Alice'']\<rparr>"
    by (simp add: newcomer_reached)
  from reachable.message [OF this _ n, of 1 "newcomer ''Alice''" "Join 1 None None"]
  show ?thesis
    by (simp add: event_join_def getEvent_def update_event_def leave_previous_def newcomer_def
        bidder_conn_def auction_def hall_def str_or_empty_def trim_def is_ws_def truthy_str_def
        Let_def)
qed

text \<open>So is the state in which two bound connections of one event hold the same name.\<close>

lemma double_binding_reachable:
  "reachable
     \<lparr>srv = (auction (Fin 0) (lot (Fin 100)))
        \<lparr>events := [(hall (Fin 0) (lot (Fin 100)))\<lparr>participants := {''Alice'', ''Bob''}\<rparr>]\<rparr>,
      conns = [0 \<mapsto> host_conn, 1 \<mapsto> renamed_conn, 2 \<mapsto> bidder_conn ''Bob'']\<rparr>"
proof -
  let ?s = "auction (Fin 0) (lot (Fin 100))"
  have n: "(0::int) < 1000" "(1000::int) < 2 ^ 52" by simp_all
  from reachable.message [OF sample_reachable _ n, of 1 "bidder_conn ''Alice''"
      "ProfileSetup (Some ''Bob'') (Some ''alice@example.org'') None None"]
  have "reachable \<lparr>srv = ?s, conns = [0 \<mapsto> host_conn, 1 \<mapsto> renamed_conn]\<rparr>"
    by (simp add: profile_setup_def renamed_conn_def bidder_conn_def str_or_empty_def trim_def
        is_ws_def Let_def)
  from reachable.connect [OF this, of 2]
  have "reachable \<lparr>srv = ?s, conns = [0 \<mapsto> host_conn, 1 \<mapsto> renamed_conn, 2 \<mapsto> init_socket]\<rparr>"
    by simp
  from reachable.message [OF this _ n, of 2 init_socket "Auth (Some ''bidder'') None"]
  have "reachable \<lparr>srv = ?s,
      conns = [0 \<mapsto> host_conn, 1 \<mapsto> renamed_conn, 2 \<mapsto> init_socket\<lparr>role := Bidder\<rparr>]\<rparr>"
    by (simp add: auth_def str_or_empty_def to_lower_def)
  from reachable.message [OF this _ n, of 2 "init_socket\<lparr>role := Bidder\<rparr>"
      "ProfileSetup (Some ''Bob'') (Some ''bidder@example.org'') (Some ''4242'') None"]
  have "reachable \<lparr>srv = ?s,
      conns = [0 \<mapsto> host_conn, 1 \<mapsto> renamed_conn, 2 \<mapsto> newcomer ''Bob'']\<rparr>"
    by (simp add: newcomer_reached)
  from reachable.message [OF this _ n, of 2 "newcomer ''Bob''" "Join 1 (Some ''Bob'') None"]
  show ?thesis
    by (simp add: event_join_def getEvent_def update_event_def leave_previous_def newcomer_def
        bidder_conn_def auction_def hall_def str_or_empty_def trim_def is_ws_def truthy_str_def
        Let_def insert_commute)
qed

text \<open>A third connection asks for the role of a bidder and sets up a profile under the name
  Carol.\<close>

lemma carol_reachable:
  "reachable \<lparr>srv = auction (Fin 0) (lot (Fin 100)),
      conns = [0 \<mapsto> host_conn, 1 \<mapsto> bidder_conn ''Alice'', 2 \<mapsto> newcomer ''Carol'']\<rparr>"
proof -
  let ?s = "auction (Fin 0) (lot (Fin 100))"
  have n: "(0::int) < 1000" "(1000::int) < 2 ^ 52" by simp_all
  from reachable.connect [OF sample_reachable, of 2]
  have "reachable \<lparr>srv = ?s,
      conns = [0 \<mapsto> host_conn, 1 \<mapsto> bidder_conn ''Alice'', 2 \<mapsto> init_socket]\<rparr>"
    by simp
  from reachable.message [OF this _ n, of 2 init_socket "Auth (Some ''bidder'') None"]
  have "reachable \<lparr>srv = ?s,
      conns = [0 \<mapsto> host_conn, 1 \<mapsto> bidder_conn ''Alice'', 2 \<mapsto> init_socket\<lparr>role := Bidder\<rparr>]\<rparr>"
    by (simp add: auth_def str_or_empty_def to_lower_def)
  from reachable.message [OF this _ n, of 2 "init_socket\<lparr>role := Bidder\<rparr>"
      "ProfileSetup (Some ''Carol'') (Some ''bidder@example.org'') (Some ''4242'') None"]
  show ?thesis
    by (simp add: profile_setup_def init_socket_def newcomer_def bidder_conn_def
      str_or_empty_def trim_def is_ws_def Let_def)
qed

text \<open>And so is the sample sale: Alice bids \<open>120\<close>, the host sells.\<close>

lemma sold_lot_reachable:
  "reachable \<lparr>srv = auction (Fin 0) sold_lot,
      conns = [0 \<mapsto> host_conn, 1 \<mapsto> bidder_conn ''Alice'']\<rparr>"
proof -
  let ?c = "[0 \<mapsto> host_conn, 1 \<mapsto> bidder_conn ''Alice'']"
  let ?bid = "(lot (Fin 100))\<lparr>currentBid := Fin 120, currentWinner := Some ''Alice'',
     bidHistory := [\<lparr>bid_name = ''Alice'', bid_amount = Fin 120, bid_time = 3000\<rparr>]\<rparr>"
  have n: "(0::int) < 3000" "(3000::int) < 2 ^ 52" and m: "(0::int) < 5000" "(5000::int) < 2 ^ 52"
    by simp_all
  have i: "item_id ?bid = 1" by (simp add: lot_def)
  from reachable.message [OF sample_reachable _ n, of 1 "bidder_conn ''Alice''"
      "PlaceBid 1 1 (Fin 120) None"]
  have "reachable \<lparr>srv = auction (Fin 0) ?bid, conns = ?c\<rparr>"
    by (simp add: placeBid_found [OF getEvent_auction getItem_hall] item_id_lot
        update_item_auction required_100 bidder_conn_def effectiveName_def deadline_reached_def
        minAcceptable_def js_max_def accept_bid_def lot_def hall_def del: One_nat_def)
  from reachable.message [OF this _ m, of 0 host_conn "MarkSold 1 1"]
  show ?thesis
    by (simp add: host_markSold_found [OF getEvent_auction getItem_hall] i
        update_item_auction host_conn_def mark_sold_def truthy_str_def js_now_def
        round_double_numeral sold_lot_def lot_def del: One_nat_def)
qed

section \<open>The pricing rule of \<open>placeBid\<close>\<close>

text \<open>With the minimum increment \<open>0\<close>, on the sample item: when the opening bid is \<open>1\<close>, a
  first bid of exactly \<open>1\<close> is rejected; when it is \<open>100\<close>, a first bid of \<open>100.01\<close> is
  accepted.\<close>

lemma placeBid_rejects_equal_bid_at_1:
  "placeBid 1000 (auction (Fin 0) (lot (Fin 1))) (bidder_conn ''Alice'') 1 1 (Fin 1) None
     = (Failed (BidTooLowCurrent (Fin 1)), auction (Fin 0) (lot (Fin 1)))"
proof -
  have r: "required (hall (Fin 0) (lot (Fin 1))) (lot (Fin 1)) = Fin (1 + 1 / 2 ^ 52)"
    using js_add_1_EPSILON by (simp add: required_def minAcceptable_def js_max_def hall_def lot_def)
  have m: "minAcceptable (lot (Fin 1)) = Fin 1"
    by (simp add: minAcceptable_def js_max_def lot_def)
  show ?thesis
    by (simp add: placeBid_found [OF getEvent_auction getItem_hall] item_id_lot r m
        bidder_conn_def effectiveName_def deadline_reached_def js_gt_def
        del: One_nat_def)
      (simp add: lot_def hall_def)
qed

lemma placeBid_accepts_100_01:
  "fst (placeBid 1000 (auction (Fin 0) (lot (Fin 100))) (bidder_conn ''Alice'') 1 1
          (js_lit (10001 / 100)) None) = Ok"
proof -
  have r: "required (hall (Fin 0) (lot (Fin 100))) (lot (Fin 100)) = Fin 100"
    by (rule required_100) (simp_all add: hall_def minAcceptable_def js_max_def lot_def)
  show ?thesis
    unfolding js_lit_100_01
    by (simp add: placeBid_found [OF getEvent_auction getItem_hall] item_id_lot r
        bidder_conn_def effectiveName_def deadline_reached_def del: One_nat_def)
      (simp add: lot_def)
qed

text \<open>
  Claim C1 (minimum increment \<open>0\<close>: a bid must be strictly greater than
  \<open>max(openingBid, currentBid)\<close>, so \<open>100\<close> on an opening bid of \<open>100\<close> is rejected).
  The handler compares the amount with \<open>minAcceptable + Number.EPSILON\<close>. When
  \<open>minAcceptable\<close> is an integer from \<open>4\<close> up to \<open>2 ^ 53\<close>, that sum is \<open>minAcceptable\<close>
  again, so \<open>amount < required\<close> is false for a bid of exactly \<open>minAcceptable\<close>: the bid
  is accepted, the bidder becomes the current winner and the ledger gets the entry.
\<close>

theorem placeBid_zero_increment_accepts_equal_bid:
  assumes ev: "getEvent s eid = Some ev" and it: "getItem ev iid = Some it"
    and bnd: "bound_bidder sd eid nm"
    and opn: "status it = Open" "\<not> deadline_reached now (endTime it)"
    and inc: "minIncrement ev = Fin 0"
    and m: "minAcceptable it = Fin (of_int m)" "4 \<le> m" "m < 2 ^ 53"
  shows "placeBid now s sd eid iid (Fin (of_int m)) nm
     = (Ok, update_item eid iid (accept_bid now (effectiveName sd nm) (Fin (of_int m))) s)"
proof -
  have e: "ev_id ev = eid" using ev by (rule getEvent_id)
  have req: "required ev it = Fin (of_int m)"
    using inc m by (simp add: required_def EPSILON_def round_double_int_plus_EPSILON)
  have pos: "\<not> js_le (Fin (of_int m)) (Fin 0)" using m(2) by simp
  show ?thesis
    using ev it bnd opn e pos by (simp add: placeBid_def bound_bidder_def req)
qed

text \<open>The scenario of the claim: opening bid \<open>100\<close>, no bid yet, and a first bid of exactly
  \<open>100\<close>.\<close>

theorem placeBid_zero_increment_accepts_equal_bid_witness:
  "placeBid 1000 (auction (Fin 0) (lot (Fin 100))) (bidder_conn ''Alice'') 1 1 (Fin 100) None
   = (Ok, auction (Fin 0) ((lot (Fin 100))\<lparr>currentBid := Fin 100, currentWinner := Some ''Alice'',
        bidHistory := [\<lparr>bid_name = ''Alice'', bid_amount = Fin 100, bid_time = 1000\<rparr>]\<rparr>))"
proof -
  let ?i = "lot (Fin 100)" and ?c = "bidder_conn ''Alice''"
  have ev: "getEvent (auction (Fin 0) ?i) 1 = Some (hall (Fin 0) ?i)" by (rule getEvent_auction)
  have it: "getItem (hall (Fin 0) ?i) 1 = Some ?i" by (rule getItem_hall) (simp add: lot_def)
  have bnd: "bound_bidder ?c 1 None"
    by (simp add: bound_bidder_def bidder_conn_def effectiveName_def)
  have opn: "status ?i = Open" "\<not> deadline_reached 1000 (endTime ?i)"
    by (simp_all add: lot_def deadline_reached_def)
  have inc: "minIncrement (hall (Fin 0) ?i) = Fin 0" by (simp add: hall_def)
  have m: "minAcceptable ?i = Fin (of_int 100)" "(4::int) \<le> 100" "(100::int) < 2 ^ 53"
    by (simp_all add: minAcceptable_def lot_def js_max_def)
  have en: "effectiveName ?c None = ''Alice''"
    by (simp add: bidder_conn_def effectiveName_def)
  have upd: "\<And>f. update_item 1 1 f (auction (Fin 0) ?i) = auction (Fin 0) (f ?i)"
    by (rule update_item_auction) (simp add: lot_def)
  have acc: "accept_bid 1000 ''Alice'' (Fin 100) ?i
      = ?i\<lparr>currentBid := Fin 100, currentWinner := Some ''Alice'',
          bidHistory := [\<lparr>bid_name = ''Alice'', bid_amount = Fin 100, bid_time = 1000\<rparr>]\<rparr>"
    by (simp add: accept_bid_def lot_def)
  have "placeBid 1000 (auction (Fin 0) ?i) ?c 1 1 (Fin (of_int 100)) None
      = (Ok, update_item 1 1 (accept_bid 1000 (effectiveName ?c None) (Fin (of_int 100)))
           (auction (Fin 0) ?i))"
    by (rule placeBid_zero_increment_accepts_equal_bid [OF ev it bnd opn inc m])
  then show ?thesis by (simp only: en upd acc of_int_numeral)
qed



section \<open>The item state machine\<close>

text \<open>
  Claim C3 (no operation moves an item from closed directly to sold; \<open>markSold\<close> on a closed
  item fails and leaves it unchanged). The handler \<open>host:markSold\<close> never looks at the
  status: on a closed item it answers with success and the item is sold.
\<close>

theorem host_markSold_closed_counterexample:
  "status ((lot (Fin 100))\<lparr>status := Closed\<rparr>) = Closed
   \<and> host_markSold 5000 (auction (Fin 0) ((lot (Fin 100))\<lparr>status := Closed\<rparr>)) host_conn 1 1
       = (Ok, auction (Fin 0) ((lot (Fin 100))\<lparr>status := Sold\<rparr>))"
  by (simp add: host_markSold_found [OF getEvent_auction getItem_hall] item_id_lot update_item_auction
      host_conn_def mark_sold_def truthy_str_def lot_def del: One_nat_def)

text \<open>
  Claim C3, as the code has it: for a host and an item that is found, \<open>markSold\<close> succeeds
  whatever the status of the item, closed included and with no reopening in between. The
  item becomes sold and its deadline is cleared; when it has a current winner the payment
  window opens (pending, the winner recorded, due two minutes after \<open>now\<close>); nothing else
  of the item changes.
\<close>

theorem host_markSold_any_status:
  assumes h: "role sd = Host" and ev: "getEvent s eid = Some ev" and it: "getItem ev iid = Some it"
  shows "host_markSold now s sd eid iid = (Ok, update_item eid iid (mark_sold now) s)
    \<and> lookup_item (update_item eid iid (mark_sold now) s) eid iid = Some (mark_sold now it)
    \<and> mark_sold now it =
        (if truthy_str (currentWinner it)
         then it\<lparr>status := Sold, endTime := None, paymentStatus := Pending,
                 paymentWinnerName := currentWinner it,
                 paymentDueAt := Some (js_add (js_now now) (Fin 120000))\<rparr>
         else it\<lparr>status := Sold, endTime := None\<rparr>)"
proof -
  have a: "host_markSold now s sd eid iid = (Ok, update_item eid iid (mark_sold now) s)"
    using h by (simp add: host_markSold_found [OF ev it])
  have b: "lookup_item (update_item eid iid (mark_sold now) s) eid iid = Some (mark_sold now it)"
    using ev it by (rule lookup_update_item_same) (simp add: mark_sold_def Let_def)
  have c: "mark_sold now it =
        (if truthy_str (currentWinner it)
         then it\<lparr>status := Sold, endTime := None, paymentStatus := Pending,
                 paymentWinnerName := currentWinner it,
                 paymentDueAt := Some (js_add (js_now now) (Fin 120000))\<rparr>
         else it\<lparr>status := Sold, endTime := None\<rparr>)"
    by (simp add: mark_sold_def Let_def)
  show ?thesis using a b c by (intro conjI)
qed

text \<open>On the closed item of the sample auction.\<close>

theorem host_markSold_any_status_witness:
  "host_markSold 5000 (auction (Fin 0) ((lot (Fin 100))\<lparr>status := Closed\<rparr>)) host_conn 1 1
     = (Ok, update_item 1 1 (mark_sold 5000) (auction (Fin 0) ((lot (Fin 100))\<lparr>status := Closed\<rparr>)))
   \<and> map_option status (lookup_item
        (update_item 1 1 (mark_sold 5000) (auction (Fin 0) ((lot (Fin 100))\<lparr>status := Closed\<rparr>))) 1 1)
     = Some Sold"
proof -
  let ?i = "(lot (Fin 100))\<lparr>status := Closed\<rparr>"
  have h: "role host_conn = Host" by (simp add: host_conn_def)
  have ev: "getEvent (auction (Fin 0) ?i) 1 = Some (hall (Fin 0) ?i)" by (rule getEvent_auction)
  have it: "getItem (hall (Fin 0) ?i) 1 = Some ?i" by (rule getItem_hall) (simp add: lot_def)
  have w: "\<not> truthy_str (currentWinner ?i)" by (simp add: lot_def truthy_str_def)
  note T = host_markSold_any_status [OF h ev it, of 5000]
  from T have "host_markSold 5000 (auction (Fin 0) ?i) host_conn 1 1
     = (Ok, update_item 1 1 (mark_sold 5000) (auction (Fin 0) ?i))" by (rule conjunct1)
  moreover from T w have "map_option status (lookup_item
        (update_item 1 1 (mark_sold 5000) (auction (Fin 0) ?i)) 1 1) = Some Sold"
    by simp
  ultimately show ?thesis by (rule conjI)
qed

text \<open>
  Claim C8 (\<open>startTimer\<close> fails whenever the requested duration is not a finite positive
  number). The handler reads \<open>Number(durationSeconds || 60)\<close>: a requested duration of
  \<open>0\<close>, like an absent one, is replaced by \<open>60\<close>, and the timer starts.
\<close>

theorem host_startTimer_zero_counterexample:
  "host_startTimer 5000 (auction (Fin 0) (lot (Fin 100))) host_conn 1 1 (JNum (Fin 0))
     = (Ok, auction (Fin 0) ((lot (Fin 100))\<lparr>endTime := Some (Fin 65000)\<rparr>))
   \<and> host_startTimer 5000 (auction (Fin 0) (lot (Fin 100))) host_conn 1 1 JUndefined
     = (Ok, auction (Fin 0) ((lot (Fin 100))\<lparr>endTime := Some (Fin 65000)\<rparr>))"
  by (simp add: host_startTimer_found [OF getEvent_auction getItem_hall] item_id_lot update_item_auction
      host_conn_def duration_of_def truthy_def js_now_def round_double_numeral lot_def
      del: One_nat_def)

text \<open>
  Claim C8, as the code has it, for an item that is found. \<open>startTimer\<close> fails and changes
  nothing when the item is not open, and when the effective duration is not a finite
  positive number. The effective duration is \<open>Number(durationSeconds || 60)\<close> of the payload
  value as it arrived: it is \<open>60\<close> for the payload values that count as false, which are
  the absent one, \<open>null\<close>, \<open>false\<close>, the numbers \<open>0\<close> and \<open>NaN\<close> and the empty string, and
  for every other payload value it is the number that \<open>Number\<close> makes of that value, so
  that a number other than \<open>0\<close> and \<open>NaN\<close> stands for itself, \<open>true\<close> for \<open>1\<close>, a string that
  is not empty for the number it spells (\<open>'0'\<close> for \<open>0\<close>, \<open>'abc'\<close> for \<open>NaN\<close>) and an
  array or object for its conversion. \<open>startTimer\<close> succeeds exactly for a host, an open
  item and a finite positive effective duration, and then the deadline of the item becomes
  \<open>now + duration * 1000\<close> (milliseconds) and nothing else of the item changes.
\<close>

theorem host_startTimer_spec:
  assumes ev: "getEvent s eid = Some ev" and it: "getItem ev iid = Some it"
  shows "(status it \<noteq> Open \<longrightarrow>
            fst (host_startTimer now s sd eid iid d) \<noteq> Ok
            \<and> snd (host_startTimer now s sd eid iid d) = s)
    \<and> (\<not> (is_finite (duration_of d) \<and> js_gt (duration_of d) (Fin 0)) \<longrightarrow>
            fst (host_startTimer now s sd eid iid d) \<noteq> Ok
            \<and> snd (host_startTimer now s sd eid iid d) = s)
    \<and> (fst (host_startTimer now s sd eid iid d) = Ok \<longleftrightarrow>
            role sd = Host \<and> status it = Open
            \<and> is_finite (duration_of d) \<and> js_gt (duration_of d) (Fin 0))
    \<and> (fst (host_startTimer now s sd eid iid d) = Ok \<longrightarrow>
            snd (host_startTimer now s sd eid iid d)
              = update_item eid iid
                  (\<lambda>i. i\<lparr>endTime := Some (js_add (js_now now) (js_mul (duration_of d) (Fin 1000)))\<rparr>) s
            \<and> lookup_item (snd (host_startTimer now s sd eid iid d)) eid iid
              = Some (it\<lparr>endTime := Some (js_add (js_now now) (js_mul (duration_of d) (Fin 1000)))\<rparr>))
    \<and> (d \<in> {JUndefined, JNull, JBool False, JNum (Fin 0), JNum NaN, JStr []} \<longrightarrow>
            duration_of d = Fin 60)
    \<and> (d \<notin> {JUndefined, JNull, JBool False, JNum (Fin 0), JNum NaN, JStr []} \<longrightarrow>
            duration_of d = to_number d)
    \<and> (\<forall>x. d = JNum x \<and> x \<noteq> Fin 0 \<and> x \<noteq> NaN \<longrightarrow> duration_of d = x)
    \<and> (\<forall>t. d = JStr t \<and> t \<noteq> [] \<longrightarrow> duration_of d = str_to_number t)
    \<and> (\<forall>n. d = JObject n \<longrightarrow> duration_of d = n)
    \<and> (d = JBool True \<longrightarrow> duration_of d = Fin 1)"
proof -
  let ?R = "host_startTimer now s sd eid iid d"
  let ?f = "\<lambda>i. i\<lparr>endTime := Some (js_add (js_now now) (js_mul (duration_of d) (Fin 1000)))\<rparr>"
  let ?good = "role sd = Host \<and> status it = Open
            \<and> is_finite (duration_of d) \<and> js_gt (duration_of d) (Fin 0)"
  let ?F = "{JUndefined, JNull, JBool False, JNum (Fin 0), JNum NaN, JStr []}"
  note body = host_startTimer_found [OF ev it, of now sd d]
  have gt: "is_finite (duration_of d) \<Longrightarrow>
      js_gt (duration_of d) (Fin 0) \<longleftrightarrow> \<not> js_le (duration_of d) (Fin 0)"
    by (rule js_gt_iff_not_le)
  have ok: "fst ?R = Ok \<longleftrightarrow> ?good"
    unfolding body using gt by (simp split: if_splits)
  have bad: "\<not> ?good \<Longrightarrow> snd ?R = s"
    unfolding body using gt by (auto split: if_splits)
  have upd: "fst ?R = Ok \<Longrightarrow> snd ?R = update_item eid iid ?f s"
    unfolding body by (simp split: if_splits)
  have lk: "lookup_item (update_item eid iid ?f s) eid iid = Some (?f it)"
    using ev it by (rule lookup_update_item_same) simp
  have falsy: "\<not> truthy_val d \<longleftrightarrow> d \<in> ?F"
    by (cases d) (auto simp: truthy_def)
  have dflt: "d \<in> ?F \<longrightarrow> duration_of d = Fin 60"
    unfolding falsy [symmetric] by (simp add: duration_of_def)
  have keep: "d \<notin> ?F \<longrightarrow> duration_of d = to_number d"
    unfolding falsy [symmetric] by (simp add: duration_of_def)
  have num: "\<forall>x. d = JNum x \<and> x \<noteq> Fin 0 \<and> x \<noteq> NaN \<longrightarrow> duration_of d = x"
    by (simp add: duration_of_def truthy_def)
  have str: "\<forall>t. d = JStr t \<and> t \<noteq> [] \<longrightarrow> duration_of d = str_to_number t"
    by (simp add: duration_of_def)
  have obj: "\<forall>n. d = JObject n \<longrightarrow> duration_of d = n"
    by (simp add: duration_of_def)
  have tru: "d = JBool True \<longrightarrow> duration_of d = Fin 1"
    by (simp add: duration_of_def)
  have c1: "status it \<noteq> Open \<longrightarrow> fst ?R \<noteq> Ok \<and> snd ?R = s" using ok bad by blast
  have c2: "\<not> (is_finite (duration_of d) \<and> js_gt (duration_of d) (Fin 0)) \<longrightarrow>
      fst ?R \<noteq> Ok \<and> snd ?R = s" using ok bad by blast
  have c4: "fst ?R = Ok \<longrightarrow> snd ?R = update_item eid iid ?f s
      \<and> lookup_item (snd ?R) eid iid = Some (?f it)" using upd lk by simp
  show ?thesis using c1 c2 ok c4 dflt keep num str obj tru by (intro conjI)
qed


text \<open>A timer of ninety seconds on the open item of the sample auction, asked for with the
  number \<open>90\<close>; and the requests with the strings \<open>'0'\<close> and \<open>'abc'\<close> and with the empty
  array, which count as true, are not replaced by \<open>60\<close> and are refused.\<close>

theorem host_startTimer_spec_witness:
  "fst (host_startTimer 5000 (auction (Fin 0) (lot (Fin 100))) host_conn 1 1 (JNum (Fin 90))) = Ok
   \<and> lookup_item (snd (host_startTimer 5000 (auction (Fin 0) (lot (Fin 100))) host_conn 1 1
        (JNum (Fin 90)))) 1 1
      = Some ((lot (Fin 100))\<lparr>endTime := Some (Fin 95000)\<rparr>)
   \<and> fst (host_startTimer 5000 (auction (Fin 0) (lot (Fin 100))) host_conn 1 1 (JStr ''0'')) \<noteq> Ok
   \<and> snd (host_startTimer 5000 (auction (Fin 0) (lot (Fin 100))) host_conn 1 1 (JStr ''0''))
     = auction (Fin 0) (lot (Fin 100))
   \<and> fst (host_startTimer 5000 (auction (Fin 0) (lot (Fin 100))) host_conn 1 1 (JStr ''abc'')) \<noteq> Ok
   \<and> snd (host_startTimer 5000 (auction (Fin 0) (lot (Fin 100))) host_conn 1 1 (JStr ''abc''))
     = auction (Fin 0) (lot (Fin 100))
   \<and> fst (host_startTimer 5000 (auction (Fin 0) (lot (Fin 100))) host_conn 1 1 (JObject (Fin 0))) \<noteq> Ok
   \<and> snd (host_startTimer 5000 (auction (Fin 0) (lot (Fin 100))) host_conn 1 1 (JObject (Fin 0)))
     = auction (Fin 0) (lot (Fin 100))"
proof -
  let ?i = "lot (Fin 100)" and ?d = "JNum (Fin 90)"
  have ev: "getEvent (auction (Fin 0) ?i) 1 = Some (hall (Fin 0) ?i)" by (rule getEvent_auction)
  have it: "getItem (hall (Fin 0) ?i) 1 = Some ?i" by (rule getItem_hall) (simp add: lot_def)
  have d: "duration_of ?d = Fin 90" by (simp add: duration_of_def truthy_def)
  have t: "js_add (js_now 5000) (js_mul (Fin 90) (Fin 1000)) = Fin 95000"
    by (simp add: js_now_def round_double_numeral)
  have g: "role host_conn = Host \<and> status ?i = Open \<and> is_finite (Fin 90) \<and> js_gt (Fin 90) (Fin 0)"
    by (simp add: host_conn_def lot_def js_gt_def)
  note T = host_startTimer_spec [OF ev it, of 5000 host_conn ?d]
  have ok: "fst (host_startTimer 5000 (auction (Fin 0) ?i) host_conn 1 1 ?d) = Ok"
    using T g unfolding d by blast
  have lk: "lookup_item (snd (host_startTimer 5000 (auction (Fin 0) ?i) host_conn 1 1 ?d)) 1 1
      = Some (?i\<lparr>endTime := Some (Fin 95000)\<rparr>)"
    using T ok unfolding d t by blast
  have z: "str_to_number ''0'' = Fin 0" by code_simp
  have a: "str_to_number ''abc'' = NaN" by code_simp
  have dz: "duration_of (JStr ''0'') = Fin 0" by (simp add: duration_of_def z)
  have da: "duration_of (JStr ''abc'') = NaN" by (simp add: duration_of_def a)
  have dr: "duration_of (JObject (Fin 0)) = Fin 0" by (simp add: duration_of_def)
  have r1: "fst (host_startTimer 5000 (auction (Fin 0) ?i) host_conn 1 1 (JStr ''0'')) \<noteq> Ok
      \<and> snd (host_startTimer 5000 (auction (Fin 0) ?i) host_conn 1 1 (JStr ''0'')) = auction (Fin 0) ?i"
    using host_startTimer_spec [OF ev it, of 5000 host_conn "JStr ''0''", THEN conjunct2, THEN conjunct1]
    unfolding dz by (simp add: js_gt_def)
  have r2: "fst (host_startTimer 5000 (auction (Fin 0) ?i) host_conn 1 1 (JStr ''abc'')) \<noteq> Ok
      \<and> snd (host_startTimer 5000 (auction (Fin 0) ?i) host_conn 1 1 (JStr ''abc'')) = auction (Fin 0) ?i"
    using host_startTimer_spec [OF ev it, of 5000 host_conn "JStr ''abc''", THEN conjunct2, THEN conjunct1]
    unfolding da by simp
  have r3: "fst (host_startTimer 5000 (auction (Fin 0) ?i) host_conn 1 1 (JObject (Fin 0))) \<noteq> Ok
      \<and> snd (host_startTimer 5000 (auction (Fin 0) ?i) host_conn 1 1 (JObject (Fin 0))) = auction (Fin 0) ?i"
    using host_startTimer_spec [OF ev it, of 5000 host_conn "JObject (Fin 0)", THEN conjunct2, THEN conjunct1]
    unfolding dr by (simp add: js_gt_def)
  show ?thesis using ok lk r1 r2 r3 by simp
qed



section \<open>The payment window and the roles\<close>

text \<open>
  Claim C4 (confirmation succeeds iff pending, caller is the recorded winner and
  \<open>now \<le> paymentDueAt\<close>; a failed attempt after the deadline moves the sub-state to
  expired). The handler checks the caller before it looks at the deadline: when another
  bidder tries to confirm after the deadline, the attempt fails with \<open>OnlyWinner\<close> and the
  item stays pending.
\<close>

theorem payment_confirm_other_bidder_counterexample:
  "deadline_passed 500000 (paymentDueAt sold_lot)
   \<and> paymentStatus sold_lot = Pending
   \<and> payment_confirm 500000 (auction (Fin 0) sold_lot) (bidder_conn ''Bob'') 1 1
       = (Failed OnlyWinner, auction (Fin 0) sold_lot)"
  by (simp add: payment_confirm_found [OF getEvent_auction getItem_hall] item_id_sold_lot
      deadline_passed_def truthy_def js_gt_def js_now_def sold_lot_def bidder_conn_def
      del: One_nat_def)

text \<open>
  Claim C4, as the code has it, for an item that is found, with a payment window and a
  connection as they are in every reachable state (\<open>payment_inv\<close>, \<open>profile_inv\<close>, by
  \<open>reachable_found\<close>). The
  confirmation succeeds if and only if the sub-state is pending, the display name of the
  caller is the recorded winner, and \<open>now \<le> paymentDueAt\<close>; on success the sub-state is
  confirmed (and the deadline cleared). When the sub-state is pending, the caller is the
  recorded winner and the deadline has passed, the attempt fails with
  \<open>PaymentWindowExpired\<close> and the sub-state becomes expired. Every attempt by somebody else,
  or on a window that is not pending, fails and changes nothing, also after the deadline.
\<close>

theorem payment_confirm_spec:
  assumes ev: "getEvent s eid = Some ev" and it: "getItem ev iid = Some it"
    and pi: "payment_inv it" and ci: "profile_inv sd"
  shows "(fst (payment_confirm now s sd eid iid) = Ok \<longleftrightarrow>
            paymentStatus it = Pending \<and> displayName sd = paymentWinnerName it
            \<and> (\<exists>due. paymentDueAt it = Some due \<and> js_le (js_now now) due))
    \<and> (fst (payment_confirm now s sd eid iid) = Ok \<longrightarrow>
            snd (payment_confirm now s sd eid iid)
              = update_item eid iid (\<lambda>i. i\<lparr>paymentStatus := Confirmed, paymentDueAt := None\<rparr>) s
            \<and> lookup_item (snd (payment_confirm now s sd eid iid)) eid iid
              = Some (it\<lparr>paymentStatus := Confirmed, paymentDueAt := None\<rparr>))
    \<and> (paymentStatus it = Pending \<and> displayName sd = paymentWinnerName it
          \<and> (\<exists>due. paymentDueAt it = Some due \<and> js_gt (js_now now) due) \<longrightarrow>
            payment_confirm now s sd eid iid
              = (Failed PaymentWindowExpired,
                 update_item eid iid (\<lambda>i. i\<lparr>paymentStatus := Expired\<rparr>) s)
            \<and> lookup_item (snd (payment_confirm now s sd eid iid)) eid iid
              = Some (it\<lparr>paymentStatus := Expired\<rparr>))
    \<and> (\<not> (paymentStatus it = Pending \<and> displayName sd = paymentWinnerName it) \<longrightarrow>
            fst (payment_confirm now s sd eid iid) \<noteq> Ok
            \<and> snd (payment_confirm now s sd eid iid) = s)"
proof -
  let ?R = "payment_confirm now s sd eid iid"
  let ?conf = "\<lambda>i. i\<lparr>paymentStatus := Confirmed, paymentDueAt := None\<rparr>"
  let ?exp = "\<lambda>i. i\<lparr>paymentStatus := Expired\<rparr>"
  let ?mine = "paymentStatus it = Pending \<and> displayName sd = paymentWinnerName it"
  note body = payment_confirm_found [OF ev it, of now sd]
  have lkc: "lookup_item (update_item eid iid ?conf s) eid iid = Some (?conf it)"
    using ev it by (rule lookup_update_item_same) simp
  have lke: "lookup_item (update_item eid iid ?exp s) eid iid = Some (?exp it)"
    using ev it by (rule lookup_update_item_same) simp
  have other: "\<not> ?mine \<Longrightarrow> \<exists>e. ?R = (Failed e, s)"
    unfolding body by auto
  have mine: "?R = (if deadline_passed now (paymentDueAt it)
                    then (Failed PaymentWindowExpired, update_item eid iid ?exp s)
                    else (Ok, update_item eid iid ?conf s))"
    and due: "\<exists>d. paymentDueAt it = Some d \<and> truthy d" if "?mine"
  proof -
    from that pi have sold: "status it = Sold" and w: "truthy_str (paymentWinnerName it)"
      and d: "case paymentDueAt it of None \<Rightarrow> False | Some d \<Rightarrow> truthy d"
      by (simp_all add: payment_inv_def)
    from w that have "displayName sd \<noteq> None"
      by (auto simp: truthy_str_def split: option.splits)
    with ci have "paymentProfile sd \<noteq> None" by (simp add: profile_inv_def)
    with sold that show "?R = (if deadline_passed now (paymentDueAt it)
                    then (Failed PaymentWindowExpired, update_item eid iid ?exp s)
                    else (Ok, update_item eid iid ?conf s))"
      unfolding body by auto
    from d show "\<exists>d. paymentDueAt it = Some d \<and> truthy d"
      by (cases "paymentDueAt it") simp_all
  qed
  have passed: "deadline_passed now (paymentDueAt it)
      \<longleftrightarrow> (\<exists>due. paymentDueAt it = Some due \<and> js_gt (js_now now) due)" if "?mine"
    using due[OF that] by (auto simp: deadline_passed_def)
  have intime: "\<not> deadline_passed now (paymentDueAt it)
      \<longleftrightarrow> (\<exists>due. paymentDueAt it = Some due \<and> js_le (js_now now) due)" if "?mine"
    using due[OF that] by (auto simp: deadline_passed_def truthy_def js_le_iff_not_gt)
  have a: "fst ?R = Ok \<longleftrightarrow> ?mine \<and> (\<exists>due. paymentDueAt it = Some due \<and> js_le (js_now now) due)"
  proof (cases "?mine")
    case True
    then show ?thesis using mine[OF True] intime[OF True] by auto
  next
    case False
    then show ?thesis using other[OF False] by auto
  qed
  have b: "fst ?R = Ok \<longrightarrow> snd ?R = update_item eid iid ?conf s
      \<and> lookup_item (snd ?R) eid iid = Some (?conf it)"
  proof (cases "?mine")
    case True
    then show ?thesis using mine[OF True] lkc by (auto split: if_splits)
  next
    case False
    then show ?thesis using other[OF False] by auto
  qed
  have c: "?mine \<and> (\<exists>due. paymentDueAt it = Some due \<and> js_gt (js_now now) due) \<longrightarrow>
      ?R = (Failed PaymentWindowExpired, update_item eid iid ?exp s)
      \<and> lookup_item (snd ?R) eid iid = Some (?exp it)"
    using mine passed lke by auto
  have d: "\<not> ?mine \<longrightarrow> fst ?R \<noteq> Ok \<and> snd ?R = s"
    using other by auto
  show ?thesis using a b c d by (simp only: conj_assoc)
qed

text \<open>The winner of the sample sale confirms in time, and too late.\<close>

theorem payment_confirm_spec_witness:
  "payment_confirm 60000 (auction (Fin 0) sold_lot) (bidder_conn ''Alice'') 1 1
     = (Ok, auction (Fin 0) (sold_lot\<lparr>paymentStatus := Confirmed, paymentDueAt := None\<rparr>))
   \<and> payment_confirm 500000 (auction (Fin 0) sold_lot) (bidder_conn ''Alice'') 1 1
     = (Failed PaymentWindowExpired, auction (Fin 0) (sold_lot\<lparr>paymentStatus := Expired\<rparr>))"
proof -
  let ?s = "auction (Fin 0) sold_lot" and ?c = "bidder_conn ''Alice''"
  have ev: "getEvent ?s 1 = Some (hall (Fin 0) sold_lot)" by (rule getEvent_auction)
  have it: "getItem (hall (Fin 0) sold_lot) 1 = Some sold_lot"
    by (rule getItem_hall) (rule item_id_sold_lot)
  have pi: "payment_inv sold_lot"
    by (simp add: payment_inv_def sold_lot_def truthy_str_def truthy_def)
  have ci: "profile_inv ?c" by (simp add: profile_inv_def bidder_conn_def)
  have mine: "paymentStatus sold_lot = Pending \<and> displayName ?c = paymentWinnerName sold_lot"
    by (simp add: sold_lot_def bidder_conn_def)
  have early: "\<exists>due. paymentDueAt sold_lot = Some due \<and> js_le (js_now 60000) due"
    by (simp add: sold_lot_def js_now_def)
  have late: "\<exists>due. paymentDueAt sold_lot = Some due \<and> js_gt (js_now 500000) due"
    by (simp add: sold_lot_def js_now_def js_gt_def)
  have upd: "\<And>f. update_item 1 1 f ?s = auction (Fin 0) (f sold_lot)"
    by (rule update_item_auction) (rule item_id_sold_lot)
  note T1 = payment_confirm_spec [OF ev it pi ci, of 60000]
  note T2 = payment_confirm_spec [OF ev it pi ci, of 500000]
  have ok: "fst (payment_confirm 60000 ?s ?c 1 1) = Ok" using T1 mine early by blast
  then have "snd (payment_confirm 60000 ?s ?c 1 1)
      = update_item 1 1 (\<lambda>i. i\<lparr>paymentStatus := Confirmed, paymentDueAt := None\<rparr>) ?s"
    using T1 by blast
  with ok have a: "payment_confirm 60000 ?s ?c 1 1
      = (Ok, auction (Fin 0) (sold_lot\<lparr>paymentStatus := Confirmed, paymentDueAt := None\<rparr>))"
    by (simp only: upd prod_eq_iff fst_conv snd_conv simp_thms)
  have b: "payment_confirm 500000 ?s ?c 1 1
      = (Failed PaymentWindowExpired, auction (Fin 0) (sold_lot\<lparr>paymentStatus := Expired\<rparr>))"
    using T2 mine late by (simp only: upd)
  show ?thesis using a b by (rule conjI)
qed

text \<open>
  Claim C5 (both \<open>placeBid\<close> and \<open>confirmPayment\<close> fail for every connection whose role is
  not bidder). The handler \<open>payment:confirm\<close> has no check of the role: a connection that
  never asked for a role, and so is a guest, sets up a profile under the winner's name and
  confirms the payment.
\<close>

theorem payment_confirm_guest_counterexample:
  "role (snd (profile_setup init_socket (Some ''Alice'') (Some ''alice@example.org'') None None))
     = Guest
   \<and> payment_confirm 60000 (auction (Fin 0) sold_lot)
        (snd (profile_setup init_socket (Some ''Alice'') (Some ''alice@example.org'') None None)) 1 1
     = (Ok, auction (Fin 0) (sold_lot\<lparr>paymentStatus := Confirmed, paymentDueAt := None\<rparr>))"
proof -
  have c: "snd (profile_setup init_socket (Some ''Alice'') (Some ''alice@example.org'') None None)
      = \<lparr>role = Guest, eventId = None, nameLocked = False, displayName = Some ''Alice'',
          paymentProfile = Some \<lparr>pf_name = ''Alice'', email = ''alice@example.org'', last4 = [],
            deliveryAddress = []\<rparr>\<rparr>"
    by (simp add: profile_setup_def init_socket_def str_or_empty_def trim_def is_ws_def Let_def)
  show ?thesis
    unfolding c
    by (simp add: payment_confirm_found [OF getEvent_auction getItem_hall] item_id_sold_lot
      update_item_auction deadline_passed_def truthy_def js_gt_def js_now_def sold_lot_def
      del: One_nat_def)
qed

text \<open>
  Claim C5, as the code has it. \<open>placeBid\<close> fails with \<open>OnlyBidders\<close> and changes nothing
  for every connection whose role is not bidder, whatever the payload (the handler reads
  the fields \<open>eventId\<close>, \<open>itemId\<close>, \<open>amount\<close> and \<open>name\<close> of the payload and no role).
  \<open>payment:confirm\<close> does not depend on the role of the connection at all: it is
  restricted by the payment profile and by the display name, not by the role, and it
  succeeds only for a connection that has a profile and whose display name is the recorded
  winner of the payment.
\<close>

theorem bidder_only_operations:
  "(role sd \<noteq> Bidder \<longrightarrow> placeBid now s sd eid iid amt nm = (Failed OnlyBidders, s))
   \<and> payment_confirm now s (sd\<lparr>role := r\<rparr>) eid iid = payment_confirm now s sd eid iid
   \<and> (fst (payment_confirm now s sd eid iid) = Ok \<longrightarrow>
         paymentProfile sd \<noteq> None
         \<and> (\<exists>it. lookup_item s eid iid = Some it \<and> displayName sd = paymentWinnerName it))"
proof -
  have a: "role sd \<noteq> Bidder \<longrightarrow> placeBid now s sd eid iid amt nm = (Failed OnlyBidders, s)"
    by (simp add: placeBid_def)
  have c: "fst (payment_confirm now s sd eid iid) = Ok \<longrightarrow>
         paymentProfile sd \<noteq> None
         \<and> (\<exists>it. lookup_item s eid iid = Some it \<and> displayName sd = paymentWinnerName it)"
    by (auto simp: payment_confirm_def lookup_item_def split: option.splits if_splits)
  have b: "payment_confirm now s (sd\<lparr>role := r\<rparr>) eid iid = payment_confirm now s sd eid iid"
  proof (cases "getEvent s eid")
    case None
    then show ?thesis by (simp add: payment_confirm_def)
  next
    case ev: (Some ev)
    show ?thesis
    proof (cases "getItem ev iid")
      case None
      with ev show ?thesis by (simp add: payment_confirm_def)
    next
      case (Some it)
      show ?thesis by (simp add: payment_confirm_found [OF ev Some])
    qed
  qed
  show ?thesis using a b c by (intro conjI)
qed

text \<open>A host and a guest on the sample auction.\<close>

theorem bidder_only_operations_witness:
  "placeBid 1000 (auction (Fin 0) (lot (Fin 100))) host_conn 1 1 (Fin 150) None
     = (Failed OnlyBidders, auction (Fin 0) (lot (Fin 100)))
   \<and> placeBid 1000 (auction (Fin 0) (lot (Fin 100))) ((bidder_conn ''Alice'')\<lparr>role := Guest\<rparr>) 1 1
        (Fin 150) None
     = (Failed OnlyBidders, auction (Fin 0) (lot (Fin 100)))
   \<and> payment_confirm 60000 (auction (Fin 0) sold_lot) ((bidder_conn ''Alice'')\<lparr>role := Guest\<rparr>) 1 1
     = payment_confirm 60000 (auction (Fin 0) sold_lot) (bidder_conn ''Alice'') 1 1"
proof -
  have h: "role host_conn \<noteq> Bidder" by (simp add: host_conn_def)
  have g: "role ((bidder_conn ''Alice'')\<lparr>role := Guest\<rparr>) \<noteq> Bidder" by simp
  show ?thesis
    using bidder_only_operations [of host_conn 1000 "auction (Fin 0) (lot (Fin 100))" 1 1 "Fin 150" None]
      bidder_only_operations [of "(bidder_conn ''Alice'')\<lparr>role := Guest\<rparr>" 1000
        "auction (Fin 0) (lot (Fin 100))" 1 1 "Fin 150" None]
      bidder_only_operations [of "bidder_conn ''Alice''" 60000 "auction (Fin 0) sold_lot" 1 1 _ _ Guest]
      h g
    by blast
qed

section \<open>The ledger\<close>

text \<open>
  Claim C7 (the ledger is append-only, strictly increasing in amount and non-decreasing in
  time; the current bid is strictly increasing over accepted bids). The handler only ever
  appends to \<open>bidHistory\<close>, but with the minimum increment \<open>0\<close> it accepts a bid that
  equals the current bid, for the reason given under C1: after an opening bid of \<open>100\<close>,
  two bids of exactly \<open>100\<close> are both accepted, and the ledger holds the amount \<open>100\<close>
  twice while the current bid stays \<open>100\<close>.
\<close>

theorem ledger_repeats_amount:
  "placeBid 1000 (auction (Fin 0) (lot (Fin 100))) (bidder_conn ''Alice'') 1 1 (Fin 100) None
     = (Ok, auction (Fin 0) lot_after_first_bid)
   \<and> placeBid 2000 (auction (Fin 0) lot_after_first_bid) (bidder_conn ''Bob'') 1 1 (Fin 100) None
     = (Ok, auction (Fin 0) lot_after_second_bid)"
proof -
  have a: "placeBid 1000 (auction (Fin 0) (lot (Fin 100))) (bidder_conn ''Alice'') 1 1 (Fin 100) None
     = (Ok, auction (Fin 0) lot_after_first_bid)"
    by (simp add: placeBid_found [OF getEvent_auction getItem_hall] item_id_lot
        update_item_auction required_100 bidder_conn_def effectiveName_def deadline_reached_def
        minAcceptable_def js_max_def accept_bid_def lot_after_first_bid_def lot_def hall_def
        del: One_nat_def)
  have b: "placeBid 2000 (auction (Fin 0) lot_after_first_bid) (bidder_conn ''Bob'') 1 1 (Fin 100) None
     = (Ok, auction (Fin 0) lot_after_second_bid)"
    by (simp add: placeBid_found [OF getEvent_auction getItem_hall] item_id_lot_after
        update_item_auction required_100 bidder_conn_def effectiveName_def deadline_reached_def
        minAcceptable_def js_max_def accept_bid_def lot_after_first_bid_def
        lot_after_second_bid_def lot_def hall_def del: One_nat_def)
  show ?thesis using a b by (rule conjI)
qed

text \<open>The amounts of that ledger are not strictly increasing.\<close>

theorem ledger_repeats_amount_witness:
  "map_option (\<lambda>j. sorted_wrt js_lt (map bid_amount (bidHistory j)))
     (lookup_item
        (snd (placeBid 2000
           (snd (placeBid 1000 (auction (Fin 0) (lot (Fin 100))) (bidder_conn ''Alice'') 1 1
                   (Fin 100) None))
           (bidder_conn ''Bob'') 1 1 (Fin 100) None)) 1 1)
   = Some False"
proof -
  have lk: "lookup_item (auction (Fin 0) lot_after_second_bid) 1 1 = Some lot_after_second_bid"
    using getEvent_auction getItem_hall [OF item_id_lot_after(2)] by (rule lookup_item_Some)
  have ns: "\<not> sorted_wrt js_lt (map bid_amount (bidHistory lot_after_second_bid))"
    by (simp add: lot_after_second_bid_def)
  show ?thesis
    using ledger_repeats_amount lk ns by simp
qed

section \<open>The identity lock\<close>

text \<open>
  Claim C9 (a display name is bound to at most one connection per event; releasing a name
  removes it from the participants). \<open>profile:setup\<close> overwrites the display name of a
  connection that is bound to an event, without a look at the lock or at the participants.
  Alice, bound to event \<open>1\<close>, sets up her profile again under the name Bob: her connection
  stays bound and locked, now under the name Bob, while the participants still hold
  \<open>Alice\<close>. A second connection then joins the same event as Bob and succeeds, so two bound
  connections hold the name. When the first one disconnects, the name Bob is deleted from
  the participants although the second connection still holds it, and \<open>Alice\<close> remains
  taken although nobody holds it. The state with the two holders of the name is a
  reachable state of the system (\<open>double_binding_reachable\<close>).
\<close>

theorem name_held_twice:
  "profile_setup (bidder_conn ''Alice'') (Some ''Bob'') (Some ''alice@example.org'') None None
     = (Ok, renamed_conn)
   \<and> event_join (auction (Fin 0) (lot (Fin 100))) (newcomer ''Bob'') 1 (Some ''Bob'') None
     = (Ok,
        (auction (Fin 0) (lot (Fin 100)))
          \<lparr>events := [(hall (Fin 0) (lot (Fin 100)))\<lparr>participants := {''Alice'', ''Bob''}\<rparr>]\<rparr>,
        bidder_conn ''Bob'')
   \<and> disconnect
        ((auction (Fin 0) (lot (Fin 100)))
          \<lparr>events := [(hall (Fin 0) (lot (Fin 100)))\<lparr>participants := {''Alice'', ''Bob''}\<rparr>]\<rparr>)
        renamed_conn
     = auction (Fin 0) (lot (Fin 100))"
proof -
  have a: "profile_setup (bidder_conn ''Alice'') (Some ''Bob'') (Some ''alice@example.org'') None None
     = (Ok, renamed_conn)"
    by (simp add: profile_setup_def renamed_conn_def bidder_conn_def str_or_empty_def trim_def
        is_ws_def Let_def)
  have b: "event_join (auction (Fin 0) (lot (Fin 100))) (newcomer ''Bob'') 1 (Some ''Bob'') None
     = (Ok,
        (auction (Fin 0) (lot (Fin 100)))
          \<lparr>events := [(hall (Fin 0) (lot (Fin 100)))\<lparr>participants := {''Alice'', ''Bob''}\<rparr>]\<rparr>,
        bidder_conn ''Bob'')"
    by (simp add: event_join_def getEvent_auction update_event_auction leave_previous_def
        newcomer_def bidder_conn_def str_or_empty_def trim_def is_ws_def truthy_str_def hall_def
        Let_def insert_commute del: One_nat_def)
  have c: "disconnect
        ((auction (Fin 0) (lot (Fin 100)))
          \<lparr>events := [(hall (Fin 0) (lot (Fin 100)))\<lparr>participants := {''Alice'', ''Bob''}\<rparr>]\<rparr>)
        renamed_conn
     = auction (Fin 0) (lot (Fin 100))"
    by (simp add: disconnect_def getEvent_def update_event_def renamed_conn_def bidder_conn_def
        auction_def hall_def Let_def insert_Diff_if)
  show ?thesis using a b c by (intro conjI)
qed

text \<open>The two connections differ, both pass the name check of \<open>placeBid\<close> for event \<open>1\<close>,
  and their display names are equal.\<close>

theorem name_held_twice_witness:
  "snd (profile_setup (bidder_conn ''Alice'') (Some ''Bob'') (Some ''alice@example.org'') None None)
     \<noteq> snd (snd (event_join (auction (Fin 0) (lot (Fin 100))) (newcomer ''Bob'') 1 (Some ''Bob'') None))
   \<and> bound_bidder
        (snd (profile_setup (bidder_conn ''Alice'') (Some ''Bob'') (Some ''alice@example.org'')
           None None)) 1 None
   \<and> bound_bidder
        (snd (snd (event_join (auction (Fin 0) (lot (Fin 100))) (newcomer ''Bob'') 1 (Some ''Bob'')
           None))) 1 None
   \<and> displayName
        (snd (profile_setup (bidder_conn ''Alice'') (Some ''Bob'') (Some ''alice@example.org'')
           None None))
     = displayName
        (snd (snd (event_join (auction (Fin 0) (lot (Fin 100))) (newcomer ''Bob'') 1 (Some ''Bob'')
           None)))"
proof -
  have a: "renamed_conn \<noteq> bidder_conn ''Bob''"
    by (simp add: renamed_conn_def bidder_conn_def)
  have b: "bound_bidder renamed_conn 1 None" "bound_bidder (bidder_conn ''Bob'') 1 None"
    by (simp_all add: bound_bidder_def renamed_conn_def bidder_conn_def effectiveName_def)
  have c: "displayName renamed_conn = displayName (bidder_conn ''Bob'')"
    by (simp add: renamed_conn_def bidder_conn_def)
  show ?thesis using name_held_twice a b c by simp
qed

text \<open>
  Claim C10 (\<open>event:join\<close> needs a payment profile; a blank requested name falls back to
  the display name of the profile). The name that a blank request falls back to is the
  display name of the connection, \<open>socket.data.displayName\<close>, which a join under another
  name has replaced; it is not the name of the profile. Carol has set up her profile under
  the name Carol (\<open>carol_reachable\<close>) and joins the sample event as Zed. Her next join of
  this event without a name succeeds and leaves her bound as Zed, while the name of her
  profile is still Carol; the same request with the name Carol is refused, because a locked
  name is not changed.
\<close>

theorem event_join_blank_name_counterexample:
  "event_join (auction (Fin 0) (lot (Fin 100))) (newcomer ''Carol'') 1 (Some ''Zed'') None
     = (Ok,
        (auction (Fin 0) (lot (Fin 100)))
          \<lparr>events := [(hall (Fin 0) (lot (Fin 100)))\<lparr>participants := {''Zed'', ''Alice''}\<rparr>]\<rparr>,
        (newcomer ''Carol'')\<lparr>eventId := Some 1, displayName := Some ''Zed'', nameLocked := True\<rparr>)
   \<and> map_option pf_name (paymentProfile
        ((newcomer ''Carol'')\<lparr>eventId := Some 1, displayName := Some ''Zed'', nameLocked := True\<rparr>))
      = Some ''Carol''
   \<and> event_join
        ((auction (Fin 0) (lot (Fin 100)))
          \<lparr>events := [(hall (Fin 0) (lot (Fin 100)))\<lparr>participants := {''Zed'', ''Alice''}\<rparr>]\<rparr>)
        ((newcomer ''Carol'')\<lparr>eventId := Some 1, displayName := Some ''Zed'', nameLocked := True\<rparr>)
        1 None None
     = (Ok,
        (auction (Fin 0) (lot (Fin 100)))
          \<lparr>events := [(hall (Fin 0) (lot (Fin 100)))\<lparr>participants := {''Zed'', ''Alice''}\<rparr>]\<rparr>,
        (newcomer ''Carol'')\<lparr>eventId := Some 1, displayName := Some ''Zed'', nameLocked := True\<rparr>)
   \<and> event_join
        ((auction (Fin 0) (lot (Fin 100)))
          \<lparr>events := [(hall (Fin 0) (lot (Fin 100)))\<lparr>participants := {''Zed'', ''Alice''}\<rparr>]\<rparr>)
        ((newcomer ''Carol'')\<lparr>eventId := Some 1, displayName := Some ''Zed'', nameLocked := True\<rparr>)
        1 (Some ''Carol'') None
     = (Failed NameChangeDenied,
        (auction (Fin 0) (lot (Fin 100)))
          \<lparr>events := [(hall (Fin 0) (lot (Fin 100)))\<lparr>participants := {''Zed'', ''Alice''}\<rparr>]\<rparr>,
        (newcomer ''Carol'')\<lparr>eventId := Some 1, displayName := Some ''Zed'', nameLocked := True\<rparr>)"
  by (simp add: event_join_def getEvent_def update_event_def leave_previous_def newcomer_def
      bidder_conn_def auction_def hall_def str_or_empty_def trim_def is_ws_def truthy_str_def
      Let_def)

text \<open>
  Claim C10, as the code has it. A connection without a payment profile gets
  \<open>ProfileRequired\<close> from every \<open>event:join\<close>, whatever the event, the name and the
  password, and nothing changes. When the requested name is blank after trimming, the
  connection has a display name, a profile and the role of a bidder, and the event is found
  and the password check passed, the join is decided with the display name of the
  connection: it fails with \<open>NameConflict\<close> when the connection is not already bound to
  this event and the display name is among the participants, and otherwise it succeeds,
  adds the display name to the participants of the event, removes it from those of the
  event left, and binds the connection to the event under that name, locked. A blank
  request of a connection without a display name fails. Every successful join binds the
  connection to the event, locked, under the trimmed requested name, or under the display
  name when that is blank, and the name is then among the participants of the event; a
  join that fails changes nothing. A blank request behaves in all as the request that
  names the display name, which is trimmed in every reachable state
  (\<open>reachable_display_name\<close>). A fresh connection has no profile; \<open>profile:setup\<close> succeeds
  exactly when the trimmed name and the trimmed email are not empty, changes nothing when
  it fails, and on success stores the trimmed name as the name of the profile and as the
  display name of the connection; \<open>auth\<close> and \<open>event:join\<close> leave the profile alone.
\<close>

theorem event_join_needs_profile:
  "(paymentProfile sd = None \<longrightarrow> event_join s sd eid nm pw = (Failed ProfileRequired, s, sd))
   \<and> (trim (str_or_empty nm) = [] \<and> displayName sd = Some d \<and> d \<noteq> []
        \<and> paymentProfile sd \<noteq> None \<and> role sd = Bidder \<and> getEvent s eid = Some ev
        \<and> (isProtected ev \<longrightarrow> str_or_empty pw = password ev) \<longrightarrow>
         event_join s sd eid nm pw
           = (if \<not> (nameLocked sd \<and> eventId sd = Some eid) \<and> d \<in> participants ev
              then (Failed NameConflict, s, sd)
              else (Ok,
                    update_event eid (\<lambda>e. e\<lparr>participants := insert d (participants e)\<rparr>)
                      (leave_previous sd eid s),
                    sd\<lparr>eventId := Some eid, displayName := Some d, nameLocked := True\<rparr>)))
   \<and> (trim (str_or_empty nm) = [] \<and> displayName sd \<in> {None, Some []} \<longrightarrow>
         fst (event_join s sd eid nm pw) \<noteq> Ok)
   \<and> (fst (event_join s sd eid nm pw) = Ok \<longrightarrow>
         displayName (snd (snd (event_join s sd eid nm pw)))
           = (if trim (str_or_empty nm) \<noteq> [] then Some (trim (str_or_empty nm))
              else displayName sd)
         \<and> eventId (snd (snd (event_join s sd eid nm pw))) = Some eid
         \<and> nameLocked (snd (snd (event_join s sd eid nm pw)))
         \<and> (\<exists>e n. getEvent (fst (snd (event_join s sd eid nm pw))) eid = Some e
               \<and> displayName (snd (snd (event_join s sd eid nm pw))) = Some n
               \<and> n \<noteq> [] \<and> n \<in> participants e))
   \<and> (fst (event_join s sd eid nm pw) \<noteq> Ok \<longrightarrow> snd (event_join s sd eid nm pw) = (s, sd))
   \<and> (trim (str_or_empty nm) = [] \<and> displayName sd = Some d \<and> trim d = d \<longrightarrow>
         event_join s sd eid nm pw = event_join s sd eid (Some d) pw)
   \<and> paymentProfile init_socket = None
   \<and> (fst (profile_setup c n e k a) = Ok \<longleftrightarrow>
         trim (str_or_empty n) \<noteq> [] \<and> trim (str_or_empty e) \<noteq> [])
   \<and> (fst (profile_setup c n e k a) \<noteq> Ok \<longrightarrow> snd (profile_setup c n e k a) = c)
   \<and> (fst (profile_setup c n e k a) = Ok \<longrightarrow>
         displayName (snd (profile_setup c n e k a)) = Some (trim (str_or_empty n))
         \<and> map_option pf_name (paymentProfile (snd (profile_setup c n e k a)))
             = Some (trim (str_or_empty n))
         \<and> trim (trim (str_or_empty n)) = trim (str_or_empty n))
   \<and> paymentProfile (snd (auth s sd r p)) = paymentProfile sd
   \<and> paymentProfile (snd (snd (event_join s sd eid nm pw))) = paymentProfile sd"
proof -
  let ?J = "event_join s sd eid nm pw"
  let ?t = "trim (str_or_empty nm)"
  have a: "paymentProfile sd = None \<longrightarrow> ?J = (Failed ProfileRequired, s, sd)"
    by (simp add: event_join_def)
  have b1: "?t = [] \<and> displayName sd = Some d \<and> d \<noteq> []
        \<and> paymentProfile sd \<noteq> None \<and> role sd = Bidder \<and> getEvent s eid = Some ev
        \<and> (isProtected ev \<longrightarrow> str_or_empty pw = password ev) \<longrightarrow>
         ?J = (if \<not> (nameLocked sd \<and> eventId sd = Some eid) \<and> d \<in> participants ev
              then (Failed NameConflict, s, sd)
              else (Ok,
                    update_event eid (\<lambda>e. e\<lparr>participants := insert d (participants e)\<rparr>)
                      (leave_previous sd eid s),
                    sd\<lparr>eventId := Some eid, displayName := Some d, nameLocked := True\<rparr>))"
  proof (intro impI, elim conjE)
    assume h: "?t = []" "displayName sd = Some d" "d \<noteq> []" "paymentProfile sd \<noteq> None"
      "role sd = Bidder" "getEvent s eid = Some ev"
      "isProtected ev \<longrightarrow> str_or_empty pw = password ev"
    show "?J = (if \<not> (nameLocked sd \<and> eventId sd = Some eid) \<and> d \<in> participants ev
              then (Failed NameConflict, s, sd)
              else (Ok,
                    update_event eid (\<lambda>e. e\<lparr>participants := insert d (participants e)\<rparr>)
                      (leave_previous sd eid s),
                    sd\<lparr>eventId := Some eid, displayName := Some d, nameLocked := True\<rparr>))"
      unfolding event_join_found [OF h(6) h(4) h(5) h(7)]
      using h(1,2,3) by (simp add: truthy_str_def)
  qed
  have b2: "?t = [] \<and> displayName sd \<in> {None, Some []} \<longrightarrow> fst ?J \<noteq> Ok"
    by (auto simp: event_join_def Let_def split: option.splits)
  have b3: "fst ?J = Ok \<longrightarrow>
         displayName (snd (snd ?J)) = (if ?t \<noteq> [] then Some ?t else displayName sd)
         \<and> eventId (snd (snd ?J)) = Some eid
         \<and> nameLocked (snd (snd ?J))
         \<and> (\<exists>e n. getEvent (fst (snd ?J)) eid = Some e
               \<and> displayName (snd (snd ?J)) = Some n \<and> n \<noteq> [] \<and> n \<in> participants e)"
  proof
    assume ok: "fst ?J = Ok"
    then have p: "paymentProfile sd \<noteq> None" and r: "role sd = Bidder"
      by (auto simp: event_join_def split: if_splits)
    from ok p r obtain ev' where ev': "getEvent s eid = Some ev'"
      by (cases "getEvent s eid") (auto simp: event_join_def)
    from ok p r ev' have pw: "isProtected ev' \<longrightarrow> str_or_empty pw = password ev'"
      by (auto simp: event_join_def split: if_splits)
    note body = event_join_found [OF ev' p r pw, of nm]
    let ?n = "if ?t \<noteq> [] then Some ?t else displayName sd"
    from ok obtain n where n: "?n = Some n" "n \<noteq> []"
      and res: "?J = (Ok,
               update_event eid (\<lambda>e. e\<lparr>participants := insert n (participants e)\<rparr>)
                 (leave_previous sd eid s),
               sd\<lparr>eventId := Some eid, displayName := Some n, nameLocked := True\<rparr>)"
      unfolding body by (cases ?n) (auto split: if_splits)
    have "getEvent (leave_previous sd eid s) eid = Some ev'"
      using ev' by (simp add: getEvent_leave_previous)
    then have g: "getEvent (update_event eid (\<lambda>e. e\<lparr>participants := insert n (participants e)\<rparr>)
                 (leave_previous sd eid s)) eid = Some (ev'\<lparr>participants := insert n (participants ev')\<rparr>)"
      by (rule getEvent_update_event_same) simp
    show "displayName (snd (snd ?J)) = ?n
         \<and> eventId (snd (snd ?J)) = Some eid
         \<and> nameLocked (snd (snd ?J))
         \<and> (\<exists>e n. getEvent (fst (snd ?J)) eid = Some e
               \<and> displayName (snd (snd ?J)) = Some n \<and> n \<noteq> [] \<and> n \<in> participants e)"
      unfolding res using n g by simp
  qed
  have b4: "fst ?J \<noteq> Ok \<longrightarrow> snd ?J = (s, sd)"
    by (auto simp: event_join_def Let_def split: option.splits if_splits)
  have b: "?t = [] \<and> displayName sd = Some d \<and> trim d = d \<longrightarrow>
         ?J = event_join s sd eid (Some d) pw"
    by (simp add: event_join_def str_or_empty_def cong: option.case_cong if_cong)
  have c: "paymentProfile init_socket = None" by (simp add: init_socket_def)
  have d: "fst (profile_setup c n e k a) = Ok \<longleftrightarrow>
         trim (str_or_empty n) \<noteq> [] \<and> trim (str_or_empty e) \<noteq> []"
    by (simp add: profile_setup_def Let_def)
  have e: "fst (profile_setup c n e k a) \<noteq> Ok \<longrightarrow> snd (profile_setup c n e k a) = c"
    by (simp add: profile_setup_def Let_def)
  have f: "fst (profile_setup c n e k a) = Ok \<longrightarrow>
         displayName (snd (profile_setup c n e k a)) = Some (trim (str_or_empty n))
         \<and> map_option pf_name (paymentProfile (snd (profile_setup c n e k a)))
             = Some (trim (str_or_empty n))
         \<and> trim (trim (str_or_empty n)) = trim (str_or_empty n)"
    by (simp add: profile_setup_def Let_def trim_idem)
  have g: "paymentProfile (snd (auth s sd r p)) = paymentProfile sd"
    by (simp add: auth_def Let_def)
  have h: "paymentProfile (snd (snd ?J)) = paymentProfile sd"
    by (simp add: event_join_def Let_def split: option.splits)
  show ?thesis using a b1 b2 b3 b4 b c d e f g h by (intro conjI)
qed

text \<open>On the sample auction: a bidder without a profile; Zed, whose request names a space
  and a no-break space, joins as Zed; a second Alice, with no name in the request, meets
  the name conflict; two spaces behave as the request for Zed; Carol, who asks for the name
  Zed with a space on either side, is bound as Zed; and \<open>profile:setup\<close> refuses a name that
  is one no-break space.\<close>

theorem event_join_needs_profile_witness:
  "event_join (auction (Fin 0) (lot (Fin 100))) (init_socket\<lparr>role := Bidder\<rparr>) 1 (Some ''Zed'') None
     = (Failed ProfileRequired, auction (Fin 0) (lot (Fin 100)), init_socket\<lparr>role := Bidder\<rparr>)
   \<and> event_join (auction (Fin 0) (lot (Fin 100))) (newcomer ''Zed'') 1
        (Some [CHR 0x20, CHR 0xA0]) None
     = (Ok,
        (auction (Fin 0) (lot (Fin 100)))
          \<lparr>events := [(hall (Fin 0) (lot (Fin 100)))\<lparr>participants := {''Zed'', ''Alice''}\<rparr>]\<rparr>,
        bidder_conn ''Zed'')
   \<and> event_join (auction (Fin 0) (lot (Fin 100))) (newcomer ''Alice'') 1 None None
     = (Failed NameConflict, auction (Fin 0) (lot (Fin 100)), newcomer ''Alice'')
   \<and> event_join (auction (Fin 0) (lot (Fin 100))) (newcomer ''Zed'') 1 (Some ''  '') None
     = event_join (auction (Fin 0) (lot (Fin 100))) (newcomer ''Zed'') 1 (Some ''Zed'') None
   \<and> displayName (snd (snd (event_join (auction (Fin 0) (lot (Fin 100))) (newcomer ''Carol'') 1
        (Some '' Zed '') None))) = Some ''Zed''
   \<and> fst (profile_setup init_socket (Some [CHR 0xA0]) (Some ''bidder@example.org'') None None)
     \<noteq> Ok"
proof -
  let ?s = "auction (Fin 0) (lot (Fin 100))"
  let ?b = "Some [CHR 0x20, CHR 0xA0]"
  have np: "paymentProfile (init_socket\<lparr>role := Bidder\<rparr>) = None" by (simp add: init_socket_def)
  have ev: "getEvent ?s 1 = Some (hall (Fin 0) (lot (Fin 100)))" by (rule getEvent_auction)
  have bl: "trim (str_or_empty ?b) = []" "trim (str_or_empty None) = []"
    "trim (str_or_empty (Some ''  '')) = []" "trim ''Zed'' = ''Zed''"
    "trim (str_or_empty (Some [CHR 0xA0])) = []"
    by (simp_all add: trim_def str_or_empty_def is_ws_def)
  have nc: "\<And>n. displayName (newcomer n) = Some n" "\<And>n. paymentProfile (newcomer n) \<noteq> None"
    "\<And>n. role (newcomer n) = Bidder" "\<And>n. \<not> nameLocked (newcomer n)"
    "\<And>n. eventId (newcomer n) = None"
    by (simp_all add: newcomer_def bidder_conn_def)
  have pw: "isProtected (hall (Fin 0) (lot (Fin 100)))
      \<longrightarrow> str_or_empty None = password (hall (Fin 0) (lot (Fin 100)))"
    by (simp add: hall_def)
  have pa: "participants (hall (Fin 0) (lot (Fin 100))) = {''Alice''}" by (simp add: hall_def)
  have lp: "\<And>n. leave_previous (newcomer n) 1 ?s = ?s"
    by (simp add: leave_previous_def nc)
  have bc: "(newcomer ''Zed'')\<lparr>eventId := Some 1, displayName := Some ''Zed'', nameLocked := True\<rparr>
      = bidder_conn ''Zed''"
    by (simp add: newcomer_def bidder_conn_def)
  have r1: "event_join ?s (init_socket\<lparr>role := Bidder\<rparr>) 1 (Some ''Zed'') None
     = (Failed ProfileRequired, ?s, init_socket\<lparr>role := Bidder\<rparr>)"
    using event_join_needs_profile [of "init_socket\<lparr>role := Bidder\<rparr>" ?s 1 "Some ''Zed''" None,
        THEN conjunct1] np by blast
  have r2: "event_join ?s (newcomer ''Zed'') 1 ?b None
     = (Ok, ?s\<lparr>events := [(hall (Fin 0) (lot (Fin 100)))\<lparr>participants := {''Zed'', ''Alice''}\<rparr>]\<rparr>,
        bidder_conn ''Zed'')"
    using event_join_needs_profile [of "newcomer ''Zed''" ?s 1 ?b None "''Zed''"
        "hall (Fin 0) (lot (Fin 100))", THEN conjunct2, THEN conjunct1] bl(1) nc ev pw
    by (simp add: pa lp update_event_auction bc del: One_nat_def)
  have r3: "event_join ?s (newcomer ''Alice'') 1 None None
     = (Failed NameConflict, ?s, newcomer ''Alice'')"
    using event_join_needs_profile [of "newcomer ''Alice''" ?s 1 None None "''Alice''"
        "hall (Fin 0) (lot (Fin 100))", THEN conjunct2, THEN conjunct1] bl(2) nc ev pw
    by (simp add: pa del: One_nat_def)
  have r4: "event_join ?s (newcomer ''Zed'') 1 (Some ''  '') None
     = event_join ?s (newcomer ''Zed'') 1 (Some ''Zed'') None"
    using event_join_needs_profile [of "newcomer ''Zed''" ?s 1 "Some ''  ''" None "''Zed''"] bl(3,4) nc(1)
    by blast
  have r5: "fst (profile_setup init_socket (Some [CHR 0xA0]) (Some ''bidder@example.org'') None None)
     \<noteq> Ok"
    using event_join_needs_profile [where c = init_socket and n = "Some [CHR 0xA0]"
        and e = "Some ''bidder@example.org''" and k = None and a = None] bl(5)
    by blast
  have ok: "fst (event_join ?s (newcomer ''Carol'') 1 (Some '' Zed '') None) = Ok"
    by (simp add: event_join_found [OF ev nc(2) nc(3) pw] nc pa trim_def str_or_empty_def
        is_ws_def truthy_str_def del: One_nat_def)
  have tz: "trim (str_or_empty (Some '' Zed '')) = ''Zed''"
    by (simp add: trim_def str_or_empty_def is_ws_def)
  have r6: "displayName (snd (snd (event_join ?s (newcomer ''Carol'') 1 (Some '' Zed '') None)))
      = Some ''Zed''"
    using event_join_needs_profile [of "newcomer ''Carol''" ?s 1 "Some '' Zed ''" None] ok
    unfolding tz by simp
  show ?thesis using r1 r2 r3 r4 r6 r5 by (intro conjI)
qed

end
